theory Spec2Isabelle
  imports Complex_Main "HOL-Library.Log_Nat" "HOL-Library.Sublist"
begin

section \<open>Python values and exceptions\<close>

text \<open>
  The program is a Python client of the OpenWeatherMap HTTP interface. An exception is a
  value: every function of the program that can raise returns \<open>exn + 'a\<close>, with \<open>Inl\<close>
  the exception raised. Each constructor stands for an exception class and carries the
  text that \<open>str(e)\<close> gives, because the program prints it and copies it into its own
  \<open>WeatherAPIError\<close>.

  \<open>HTTPError\<close> is \<open>requests.exceptions.HTTPError\<close>; \<open>RequestException\<close> stands for every
  other subclass of \<open>requests.exceptions.RequestException\<close> (connection errors, timeouts,
  invalid URLs, a body that is not JSON). \<open>WeatherAPIError\<close> is the exception class
  declared in \<open>api_service.py\<close>. All classes but \<open>KeyboardInterrupt\<close> derive from
  \<open>Exception\<close>.
\<close>

datatype exn =
    HTTPError string
  | RequestException string
  | WeatherAPIError string
  | KeyError string
  | IndexError string
  | TypeError string
  | ValueError string
  | OverflowError string
  | UnboundLocalError string
  | OSError string
  | EOFError string
  | KeyboardInterrupt

fun str_exn :: "exn \<Rightarrow> string" where
  "str_exn (HTTPError m) = m"
| "str_exn (RequestException m) = m"
| "str_exn (WeatherAPIError m) = m"
| "str_exn (KeyError m) = m"
| "str_exn (IndexError m) = m"
| "str_exn (TypeError m) = m"
| "str_exn (ValueError m) = m"
| "str_exn (OverflowError m) = m"
| "str_exn (UnboundLocalError m) = m"
| "str_exn (OSError m) = m"
| "str_exn (EOFError m) = m"
| "str_exn KeyboardInterrupt = []"

definition bind :: "exn + 'a \<Rightarrow> ('a \<Rightarrow> exn + 'b) \<Rightarrow> exn + 'b" where
  "bind m f = (case m of Inl e \<Rightarrow> Inl e | Inr x \<Rightarrow> f x)"

subsection \<open>Floats\<close>

text \<open>
  A Python \<open>float\<close> is an IEEE 754 binary64 number. A finite one is the rational number it
  denotes (\<open>Finite 0\<close> is \<open>+0.0\<close>, \<open>NegZero\<close> is \<open>-0.0\<close>). Arithmetic computes the exact
  rational result and rounds it to the nearest binary64 number, ties to the even
  significand, which is what the hardware does for \<open>kelvin - 273.15\<close> and what CPython
  does when it reads a decimal literal.
\<close>

datatype pyfloat = Finite rat | NegZero | PosInf | NegInf | NaN

definition pow_int :: "rat \<Rightarrow> int \<Rightarrow> rat" where
  "pow_int b e = (if 0 \<le> e then b ^ nat e else 1 / b ^ nat (- e))"

definition round_half_even :: "rat \<Rightarrow> int" where
  "round_half_even x =
     (let f = \<lfloor>x\<rfloor>; d = x - of_int f
      in if d < 1 / 2 then f
         else if 1 / 2 < d then f + 1
         else if even f then f else f + 1)"

text \<open>\<open>ilog2 x\<close> is \<open>\<lfloor>log\<^sub>2 x\<rfloor>\<close> for a positive rational \<open>x\<close>.\<close>

definition ilog2 :: "rat \<Rightarrow> int" where
  "ilog2 x =
     (let (p, q) = quotient_of x;
          d = bitlen p - bitlen q
      in if pow_int 2 d \<le> x then d else d - 1)"

text \<open>
  Rounding to binary64: 53 significant bits, least exponent \<open>-1074\<close> (subnormal numbers),
  overflow to an infinity when the rounded magnitude reaches \<open>2\<^sup>1\<^sup>0\<^sup>2\<^sup>4\<close>, that is when its
  binary logarithm reaches 1024.
\<close>

definition round_binary64 :: "rat \<Rightarrow> pyfloat" where
  "round_binary64 x =
     (if x = 0 then Finite 0
      else
        let e = max (ilog2 \<bar>x\<bar> - 52) (- 1074);
            y = of_int (round_half_even (x / pow_int 2 e)) * pow_int 2 e
        in if 1024 \<le> ilog2 \<bar>y\<bar> then (if 0 < x then PosInf else NegInf)
           else if y = 0 \<and> x < 0 then NegZero
           else Finite y)"

text \<open>The float that a decimal literal such as \<open>273.15\<close> denotes.\<close>

definition float_of_decimal :: "rat \<Rightarrow> pyfloat" where
  "float_of_decimal q = round_binary64 q"

text \<open>Float subtraction \<open>a - b\<close>, which never raises.\<close>

fun float_sub :: "pyfloat \<Rightarrow> pyfloat \<Rightarrow> pyfloat" where
  "float_sub NaN _ = NaN"
| "float_sub _ NaN = NaN"
| "float_sub PosInf PosInf = NaN"
| "float_sub NegInf NegInf = NaN"
| "float_sub PosInf _ = PosInf"
| "float_sub NegInf _ = NegInf"
| "float_sub _ PosInf = NegInf"
| "float_sub _ NegInf = PosInf"
| "float_sub NegZero NegZero = Finite 0"
| "float_sub NegZero (Finite b) = (if b = 0 then NegZero else round_binary64 (- b))"
| "float_sub (Finite a) NegZero = round_binary64 a"
| "float_sub (Finite a) (Finite b) = round_binary64 (a - b)"

text \<open>
  The built-in \<open>round(x, ndigits)\<close> on a float (CPython's \<open>float.__round__\<close>): infinities
  and NaN round to themselves, a huge \<open>ndigits\<close> leaves \<open>x\<close> as it is, a very negative one
  gives a zero of the sign of \<open>x\<close>; otherwise the exact value of \<open>x\<close> is rounded to
  \<open>ndigits\<close> decimal places, ties to even, the result is read back as a float, and
  \<open>OverflowError\<close> is raised when that is not finite.
\<close>

definition py_round :: "pyfloat \<Rightarrow> int \<Rightarrow> exn + pyfloat" where
  "py_round x ndigits =
     (case x of
        Finite q \<Rightarrow>
          if 631 < ndigits then Inr x
          else if ndigits < - 308 then Inr (if q < 0 then NegZero else Finite 0)
          else
            let s = pow_int 10 ndigits;
                r = of_int (round_half_even (q * s)) / s
            in (case round_binary64 r of
                  PosInf \<Rightarrow> Inl (OverflowError ''rounded value too large to represent'')
                | NegInf \<Rightarrow> Inl (OverflowError ''rounded value too large to represent'')
                | y \<Rightarrow> if r = 0 \<and> q < 0 then Inr NegZero else Inr y)
      | _ \<Rightarrow> Inr x)"

text \<open>Conversion of an \<open>int\<close> operand to \<open>float\<close>, as mixed arithmetic does it.\<close>

definition float_of_int :: "int \<Rightarrow> exn + pyfloat" where
  "float_of_int i =
     (case round_binary64 (of_int i) of
        PosInf \<Rightarrow> Inl (OverflowError ''int too large to convert to float'')
      | NegInf \<Rightarrow> Inl (OverflowError ''int too large to convert to float'')
      | y \<Rightarrow> Inr y)"

subsection \<open>Decoded JSON\<close>

text \<open>
  What \<open>response.json()\<close> returns: \<open>None\<close>, a \<open>bool\<close>, an unbounded \<open>int\<close>, a \<open>float\<close>, a
  \<open>str\<close>, a \<open>list\<close> or a \<open>dict\<close> with \<open>str\<close> keys (in insertion order). A \<open>char\<close> of a
  \<open>string\<close> stands for one code point below 256.
\<close>

datatype pyval =
    PNone
  | PBool bool
  | PInt int
  | PFloat pyfloat
  | PStr string
  | PList "pyval list"
  | PDict "(string \<times> pyval) list"

fun type_name :: "pyval \<Rightarrow> string" where
  "type_name PNone = ''NoneType''"
| "type_name (PBool _) = ''bool''"
| "type_name (PInt _) = ''int''"
| "type_name (PFloat _) = ''float''"
| "type_name (PStr _) = ''str''"
| "type_name (PList _) = ''list''"
| "type_name (PDict _) = ''dict''"

text \<open>\<open>v[key]\<close> with a \<open>str\<close> key that is one of the program's literals.\<close>

fun getitem_str :: "pyval \<Rightarrow> string \<Rightarrow> exn + pyval" where
  "getitem_str (PDict kvs) key =
     (case map_of kvs key of
        Some v \<Rightarrow> Inr v
      | None \<Rightarrow> Inl (KeyError ([CHR 0x27] @ key @ [CHR 0x27])))"
| "getitem_str (PList _) key =
     Inl (TypeError ''list indices must be integers or slices, not str'')"
| "getitem_str (PStr _) key =
     Inl (TypeError (''string indices must be integers, not '' @ [CHR 0x27] @ ''str'' @ [CHR 0x27]))"
| "getitem_str v key =
     Inl (TypeError ([CHR 0x27] @ type_name v @ [CHR 0x27] @ '' object is not subscriptable''))"

text \<open>\<open>v[i]\<close> with an \<open>int\<close> index; a negative index counts from the end.\<close>

definition list_index :: "'a list \<Rightarrow> int \<Rightarrow> 'a option" where
  "list_index xs i =
     (let n = int (length xs); j = (if i < 0 then n + i else i)
      in if 0 \<le> j \<and> j < n then Some (xs ! nat j) else None)"

text \<open>The decimal digits of a natural number, as \<open>str\<close> writes an \<open>int\<close>.\<close>

definition digit_char :: "int \<Rightarrow> char" where
  "digit_char d = ''0123456789'' ! nat d"

function digits :: "int \<Rightarrow> string" where
  "digits n = (if n < 10 then [digit_char n] else digits (n div 10) @ [digit_char (n mod 10)])"
  by pat_completeness auto
termination
  by (relation "measure nat") auto

declare digits.simps [simp del]

definition string_of_int :: "int \<Rightarrow> string" where
  "string_of_int i = (if i < 0 then CHR ''-'' # digits (- i) else digits i)"

fun getitem_int :: "pyval \<Rightarrow> int \<Rightarrow> exn + pyval" where
  "getitem_int (PList xs) i =
     (case list_index xs i of
        Some v \<Rightarrow> Inr v
      | None \<Rightarrow> Inl (IndexError ''list index out of range''))"
| "getitem_int (PStr s) i =
     (case list_index s i of
        Some c \<Rightarrow> Inr (PStr [c])
      | None \<Rightarrow> Inl (IndexError ''string index out of range''))"
| "getitem_int (PDict kvs) i = Inl (KeyError (string_of_int i))"
| "getitem_int v i =
     Inl (TypeError ([CHR 0x27] @ type_name v @ [CHR 0x27] @ '' object is not subscriptable''))"

text \<open>The items that \<open>for item in v\<close> visits: a dict gives its keys, a str its characters.\<close>

fun iter_items :: "pyval \<Rightarrow> exn + pyval list" where
  "iter_items (PList xs) = Inr xs"
| "iter_items (PDict kvs) = Inr (map (\<lambda>kv. PStr (fst kv)) kvs)"
| "iter_items (PStr s) = Inr (map (\<lambda>c. PStr [c]) s)"
| "iter_items v =
     Inl (TypeError ([CHR 0x27] @ type_name v @ [CHR 0x27] @ '' object is not iterable''))"


text \<open>
  \<open>v - f\<close> for a float \<open>f\<close>: an \<open>int\<close> or \<open>bool\<close> operand is converted to \<open>float\<close> first,
  any other operand type raises \<open>TypeError\<close>.
\<close>

fun sub_float :: "pyval \<Rightarrow> pyfloat \<Rightarrow> exn + pyfloat" where
  "sub_float (PFloat a) f = Inr (float_sub a f)"
| "sub_float (PInt i) f = bind (float_of_int i) (\<lambda>a. Inr (float_sub a f))"
| "sub_float (PBool b) f = bind (float_of_int (if b then 1 else 0)) (\<lambda>a. Inr (float_sub a f))"
| "sub_float v f =
     Inl (TypeError (''unsupported operand type(s) for -: '' @ [CHR 0x27] @ type_name v @ [CHR 0x27]
        @ '' and '' @ [CHR 0x27] @ ''float'' @ [CHR 0x27]))"

subsection \<open>Timestamps\<close>

text \<open>
  A \<open>datetime\<close>: its date and time fields and its zone. \<open>tzinfo\<close> is the offset of the
  zone from UTC in seconds, \<open>Some 0\<close> for \<open>timezone.utc\<close>, and \<open>None\<close> for a naive
  datetime, which carries no zone.
\<close>

record datetime =
  year :: int
  month :: int
  day :: int
  hour :: int
  minute :: int
  second :: int
  microsecond :: int
  tzinfo :: "int option"

text \<open>The proleptic Gregorian date of a day number counted from 1970-01-01.\<close>

definition civil_from_days :: "int \<Rightarrow> int \<times> int \<times> int" where
  "civil_from_days n =
     (let z = n + 719468;
          era = z div 146097;
          doe = z mod 146097;
          yoe = (doe - doe div 1460 + doe div 36524 - doe div 146096) div 365;
          doy = doe - (365 * yoe + yoe div 4 - yoe div 100);
          mp = (5 * doy + 2) div 153;
          d = doy - (153 * mp + 2) div 5 + 1;
          m = (if mp < 10 then mp + 3 else mp - 9);
          y = yoe + era * 400 + (if m \<le> 2 then 1 else 0)
      in (y, m, d))"

text \<open>
  Whole seconds and microseconds of a timestamp argument. A float is split into its
  integral and fractional part, the fraction is scaled by \<open>10\<^sup>6\<close> in float arithmetic and
  rounded half to even.
\<close>

fun timestamp_parts :: "pyval \<Rightarrow> exn + int \<times> int" where
  "timestamp_parts (PInt n) = Inr (n, 0)"
| "timestamp_parts (PBool b) = Inr (if b then 1 else 0, 0)"
| "timestamp_parts (PFloat NaN) = Inl (ValueError ''Invalid value NaN (not a number)'')"
| "timestamp_parts (PFloat PosInf) =
     Inl (OverflowError ''timestamp out of range for platform time_t'')"
| "timestamp_parts (PFloat NegInf) =
     Inl (OverflowError ''timestamp out of range for platform time_t'')"
| "timestamp_parts (PFloat NegZero) = Inr (0, 0)"
| "timestamp_parts (PFloat (Finite q)) =
     (let ip = (if 0 \<le> q then \<lfloor>q\<rfloor> else \<lceil>q\<rceil>);
          fp = (case round_binary64 ((q - of_int ip) * 1000000) of
                  Finite f \<Rightarrow> round_half_even f
                | _ \<Rightarrow> 0)
      in if 1000000 \<le> fp then Inr (ip + 1, fp - 1000000)
         else if fp < 0 then Inr (ip - 1, fp + 1000000)
         else Inr (ip, fp))"
| "timestamp_parts v =
     Inl (TypeError ([CHR 0x27] @ type_name v @ [CHR 0x27]
        @ '' object cannot be interpreted as an integer''))"

text \<open>
  \<open>datetime.fromtimestamp(t, timezone.utc)\<close> on a platform with a 64-bit \<open>time_t\<close> and a
  32-bit \<open>int\<close>: the seconds must fit \<open>time_t\<close>, the year must fit the C library's
  \<open>struct tm\<close>, and the year must lie between 1 and 9999.
\<close>

definition wrap_int32 :: "int \<Rightarrow> int" where
  "wrap_int32 n = (n + 2 ^ 31) mod 2 ^ 32 - 2 ^ 31"

definition fromtimestamp_utc :: "pyval \<Rightarrow> exn + datetime" where
  "fromtimestamp_utc t =
     bind (timestamp_parts t) (\<lambda>(secs, us).
       if secs < - (2 ^ 63) \<or> 2 ^ 63 \<le> secs
       then Inl (OverflowError ''timestamp out of range for platform time_t'')
       else
         let (y, m, d) = civil_from_days (secs div 86400);
             r = secs mod 86400
         in if y - 1900 < - (2 ^ 31) \<or> 2 ^ 31 \<le> y - 1900
            then Inl (OSError ''[Errno 75] Value too large for defined data type'')
            else if y < 1 \<or> 9999 < y
            then Inl (ValueError (''year '' @ string_of_int (wrap_int32 y) @ '' is out of range''))
            else Inr \<lparr>year = y, month = m, day = d, hour = r div 3600,
                       minute = r mod 3600 div 60, second = r mod 60, microsecond = us,
                       tzinfo = Some 0\<rparr>)"

text \<open>
  \<open>strftime('%Y-%m-%d %H:%M:%S')\<close> as CPython gives it through the C library (glibc):
  the fields as the datetime holds them, whatever its zone; month, day, hour, minute and
  second padded with a zero to two digits, the year in decimal without padding, so that
  the year 999 is printed \<open>999\<close>.
\<close>

definition pad2 :: "int \<Rightarrow> string" where
  "pad2 n = (if n < 10 then CHR ''0'' # digits n else digits n)"

definition strftime :: "datetime \<Rightarrow> string" where
  "strftime t =
     digits (year t) @ ''-'' @ pad2 (month t) @ ''-'' @ pad2 (day t) @ '' ''
       @ pad2 (hour t) @ '':'' @ pad2 (minute t) @ '':'' @ pad2 (second t)"

section \<open>The data record (\<open>models.py\<close>)\<close>

text \<open>
  The dataclass \<open>WeatherData\<close>. Python does not check the annotations of a dataclass:
  a field holds whatever value the constructor was given, and the service stores
  decoded JSON values in it. Only \<open>timestamp\<close> is optional, with default \<open>None\<close>.
\<close>

record WeatherData =
  city_name :: pyval
  temperature :: pyval
  condition :: pyval
  humidity :: pyval
  wind_speed :: pyval
  timestamp :: "datetime option"

section \<open>The API service (\<open>api_service.py\<close>)\<close>

record WeatherAPIService =
  api_key :: string
  base_url :: string

text \<open>\<open>WeatherAPIService.__init__\<close>.\<close>

definition init_service :: "string \<Rightarrow> WeatherAPIService" where
  "init_service key = \<lparr>api_key = key, base_url = ''http://api.openweathermap.org/data/2.5''\<rparr>"

text \<open>
  The \<open>requests\<close> library is the environment of the service. A response object has a
  status code, a reason phrase and the URL it came from; \<open>json_body\<close> is what
  \<open>response.json()\<close> does: it returns the decoded body or raises. A call
  \<open>requests.get(url, timeout=5)\<close> is a function from the URL to a response or to the
  exception it raises.
\<close>

record response =
  status_code :: int
  reason :: string
  url :: string
  json_body :: "exn + pyval"

type_synonym http_get = "string \<Rightarrow> exn + response"

text \<open>\<open>response.raise_for_status()\<close>: \<open>HTTPError\<close> for a status from 400 to 599.\<close>

definition raise_for_status :: "response \<Rightarrow> exn + unit" where
  "raise_for_status r =
     (if 400 \<le> status_code r \<and> status_code r < 500
      then Inl (HTTPError (string_of_int (status_code r) @ '' Client Error: '' @ reason r
             @ '' for url: '' @ url r))
      else if 500 \<le> status_code r \<and> status_code r < 600
      then Inl (HTTPError (string_of_int (status_code r) @ '' Server Error: '' @ reason r
             @ '' for url: '' @ url r))
      else Inr ())"

text \<open>The two request URLs, built by f-strings from the base URL, the city and the key.\<close>

definition weather_url :: "WeatherAPIService \<Rightarrow> string \<Rightarrow> string" where
  "weather_url self city = base_url self @ ''/weather?q='' @ city @ ''&appid='' @ api_key self"

definition forecast_url :: "WeatherAPIService \<Rightarrow> string \<Rightarrow> string" where
  "forecast_url self city = base_url self @ ''/forecast?q='' @ city @ ''&appid='' @ api_key self"

text \<open>\<open>_kelvin_to_celsius\<close>: \<open>kelvin - 273.15\<close>.\<close>

definition kelvin_to_celsius :: "pyval \<Rightarrow> exn + pyfloat" where
  "kelvin_to_celsius kelvin = sub_float kelvin (float_of_decimal (27315 / 100))"

text \<open>
  The \<open>WeatherData(...)\<close> expression of \<open>fetch_current_weather\<close>; the keyword
  arguments are evaluated from left to right, and the first one that raises ends it.
\<close>

definition current_weather_data :: "pyval \<Rightarrow> exn + WeatherData" where
  "current_weather_data data =
     bind (getitem_str data ''name'') (\<lambda>name.
     bind (getitem_str data ''main'') (\<lambda>main.
     bind (getitem_str main ''temp'') (\<lambda>temp.
     bind (kelvin_to_celsius temp) (\<lambda>celsius.
     bind (py_round celsius 1) (\<lambda>rounded.
     bind (getitem_str data ''weather'') (\<lambda>weather.
     bind (getitem_int weather 0) (\<lambda>weather0.
     bind (getitem_str weather0 ''description'') (\<lambda>description.
     bind (getitem_str data ''main'') (\<lambda>main'.
     bind (getitem_str main' ''humidity'') (\<lambda>hum.
     bind (getitem_str data ''wind'') (\<lambda>wind.
     bind (getitem_str wind ''speed'') (\<lambda>speed.
     bind (getitem_str data ''dt'') (\<lambda>dt.
     bind (fromtimestamp_utc dt) (\<lambda>ts.
       Inr \<lparr>city_name = name, temperature = PFloat rounded, condition = description,
            humidity = hum, wind_speed = speed, timestamp = Some ts\<rparr>))))))))))))))"

definition fetch_current_weather ::
  "WeatherAPIService \<Rightarrow> http_get \<Rightarrow> string \<Rightarrow> exn + WeatherData option" where
  "fetch_current_weather self requests_get city =
     (let url = weather_url self city
      in case requests_get url of
           Inl e \<Rightarrow>
             (case e of
                HTTPError m \<Rightarrow>
                  Inl (UnboundLocalError
                    (''cannot access local variable '' @ [CHR 0x27] @ ''response'' @ [CHR 0x27]
                       @ '' where it is not associated with a value''))
              | RequestException m \<Rightarrow> Inl (WeatherAPIError (''Error fetching weather data: '' @ m))
              | _ \<Rightarrow> Inl e)
         | Inr response \<Rightarrow>
             (case bind (raise_for_status response) (\<lambda>_.
                   bind (json_body response) current_weather_data) of
                Inr weather \<Rightarrow> Inr (Some weather)
              | Inl e \<Rightarrow>
                  (case e of
                     HTTPError m \<Rightarrow>
                       if status_code response = 404 then Inr None
                       else Inl (WeatherAPIError (''HTTP error occurred: '' @ m))
                   | RequestException m \<Rightarrow>
                       Inl (WeatherAPIError (''Error fetching weather data: '' @ m))
                   | _ \<Rightarrow> Inl e)))"

text \<open>One \<open>WeatherData(...)\<close> expression of the loop of \<open>fetch_forecast\<close>.\<close>

definition forecast_weather_data :: "pyval \<Rightarrow> pyval \<Rightarrow> exn + WeatherData" where
  "forecast_weather_data data item =
     bind (getitem_str data ''city'') (\<lambda>city.
     bind (getitem_str city ''name'') (\<lambda>name.
     bind (getitem_str item ''main'') (\<lambda>main.
     bind (getitem_str main ''temp'') (\<lambda>temp.
     bind (kelvin_to_celsius temp) (\<lambda>celsius.
     bind (py_round celsius 1) (\<lambda>rounded.
     bind (getitem_str item ''weather'') (\<lambda>weather.
     bind (getitem_int weather 0) (\<lambda>weather0.
     bind (getitem_str weather0 ''description'') (\<lambda>description.
     bind (getitem_str item ''main'') (\<lambda>main'.
     bind (getitem_str main' ''humidity'') (\<lambda>hum.
     bind (getitem_str item ''wind'') (\<lambda>wind.
     bind (getitem_str wind ''speed'') (\<lambda>speed.
     bind (getitem_str item ''dt'') (\<lambda>dt.
     bind (fromtimestamp_utc dt) (\<lambda>ts.
       Inr \<lparr>city_name = name, temperature = PFloat rounded, condition = description,
            humidity = hum, wind_speed = speed, timestamp = Some ts\<rparr>)))))))))))))))"

text \<open>The \<open>for item in data["list"]\<close> loop, appending to \<open>forecast_list\<close>.\<close>

fun forecast_loop :: "pyval \<Rightarrow> pyval list \<Rightarrow> WeatherData list \<Rightarrow> exn + WeatherData list" where
  "forecast_loop data [] forecast_list = Inr forecast_list"
| "forecast_loop data (item # items) forecast_list =
     bind (forecast_weather_data data item) (\<lambda>weather.
       forecast_loop data items (forecast_list @ [weather]))"

definition forecast_data :: "pyval \<Rightarrow> exn + WeatherData list" where
  "forecast_data data =
     bind (getitem_str data ''list'') (\<lambda>entries.
     bind (iter_items entries) (\<lambda>items.
       forecast_loop data items []))"

definition fetch_forecast ::
  "WeatherAPIService \<Rightarrow> http_get \<Rightarrow> string \<Rightarrow> exn + WeatherData list" where
  "fetch_forecast self requests_get city =
     (let url = forecast_url self city
      in case requests_get url of
           Inl e \<Rightarrow>
             (case e of
                HTTPError m \<Rightarrow>
                  Inl (UnboundLocalError
                    (''cannot access local variable '' @ [CHR 0x27] @ ''response'' @ [CHR 0x27]
                       @ '' where it is not associated with a value''))
              | RequestException m \<Rightarrow> Inl (WeatherAPIError (''Error fetching forecast data: '' @ m))
              | _ \<Rightarrow> Inl e)
         | Inr response \<Rightarrow>
             (case bind (raise_for_status response) (\<lambda>_.
                   bind (json_body response) forecast_data) of
                Inr forecast_list \<Rightarrow> Inr forecast_list
              | Inl e \<Rightarrow>
                  (case e of
                     HTTPError m \<Rightarrow>
                       if status_code response = 404 then Inr []
                       else Inl (WeatherAPIError (''HTTP error occurred: '' @ m))
                   | RequestException m \<Rightarrow>
                       Inl (WeatherAPIError (''Error fetching forecast data: '' @ m))
                   | _ \<Rightarrow> Inl e)))"


section \<open>The client (\<open>weather_client.py\<close>)\<close>

subsection \<open>Text\<close>

text \<open>
  \<open>print(s)\<close> writes \<open>s\<close> and a newline. A replacement field \<open>{v}\<close> of an f-string inserts
  \<open>format(v, '')\<close>: a \<open>str\<close> as it is, an \<open>int\<close> in decimal, \<open>None\<close> and the booleans by
  name; for a \<open>float\<close>, a \<open>list\<close> and a \<open>dict\<close> it is the built-in \<open>repr\<close>, which is a
  parameter of the model.
\<close>

definition newline :: char where
  "newline = CHR 0x0A"

definition print_line :: "string \<Rightarrow> string" where
  "print_line s = s @ [newline]"

definition py_format :: "(pyval \<Rightarrow> string) \<Rightarrow> pyval \<Rightarrow> string" where
  "py_format repr v =
     (case v of
        PStr s \<Rightarrow> s
      | PInt i \<Rightarrow> string_of_int i
      | PBool b \<Rightarrow> (if b then ''True'' else ''False'')
      | PNone \<Rightarrow> ''None''
      | _ \<Rightarrow> repr v)"

text \<open>\<open>str.strip()\<close>, \<open>str.lower()\<close> and \<open>str.split(",")\<close> on code points below 256.\<close>

definition is_space :: "char \<Rightarrow> bool" where
  "is_space c \<longleftrightarrow>
     c \<in> set [CHR 0x09, CHR 0x0A, CHR 0x0B, CHR 0x0C, CHR 0x0D, CHR 0x1C, CHR 0x1D, CHR 0x1E,
              CHR 0x1F, CHR 0x20, CHR 0x85, CHR 0xA0]"

definition strip :: "string \<Rightarrow> string" where
  "strip s = rev (dropWhile is_space (rev (dropWhile is_space s)))"

definition lower_char :: "char \<Rightarrow> char" where
  "lower_char c =
     (let n = (of_char c :: nat)
      in if (65 \<le> n \<and> n \<le> 90) \<or> (192 \<le> n \<and> n \<le> 222 \<and> n \<noteq> 215) then char_of (n + 32) else c)"

definition lower :: "string \<Rightarrow> string" where
  "lower s = map lower_char s"

fun split_on :: "char \<Rightarrow> string \<Rightarrow> string list" where
  "split_on sep [] = [[]]"
| "split_on sep (c # cs) =
     (if c = sep then [] # split_on sep cs
      else (case split_on sep cs of
              [] \<Rightarrow> [[c]]
            | piece # pieces \<Rightarrow> (c # piece) # pieces))"

subsection \<open>Displaying records\<close>

text \<open>\<open>display_weather\<close>: the text it prints.\<close>

definition display_weather :: "(pyval \<Rightarrow> string) \<Rightarrow> WeatherData \<Rightarrow> string" where
  "display_weather repr weather =
     print_line (newline # ''Weather for '' @ py_format repr (city_name weather) @ '':'')
     @ print_line (''Temperature: '' @ py_format repr (temperature weather) @ [CHR 0xB0, CHR ''C''])
     @ print_line (''Condition: '' @ py_format repr (condition weather))
     @ print_line (''Humidity: '' @ py_format repr (humidity weather) @ ''%'')
     @ print_line (''Wind Speed: '' @ py_format repr (wind_speed weather) @ '' m/s'')
     @ (case timestamp weather of
          Some t \<Rightarrow> print_line (''Time: '' @ strftime t @ '' UTC'')
        | None \<Rightarrow> [])"

text \<open>The \<open>for weather in forecast\<close> loop of \<open>display_forecast\<close>.\<close>

fun display_forecast_loop :: "(pyval \<Rightarrow> string) \<Rightarrow> WeatherData list \<Rightarrow> string" where
  "display_forecast_loop repr [] = []"
| "display_forecast_loop repr (weather # rest) =
     print_line (replicate 40 CHR ''-'') @ display_weather repr weather
       @ display_forecast_loop repr rest"

text \<open>
  \<open>display_forecast\<close>: \<open>forecast[0]\<close> raises \<open>IndexError\<close> on the empty list, before
  anything is printed.
\<close>

definition display_forecast :: "(pyval \<Rightarrow> string) \<Rightarrow> WeatherData list \<Rightarrow> exn + string" where
  "display_forecast repr forecast =
     (case forecast of
        [] \<Rightarrow> Inl (IndexError ''list index out of range'')
      | first # _ \<Rightarrow>
          Inr (print_line (newline # ''5-Day Forecast for '' @ py_format repr (city_name first) @ '':'')
               @ display_forecast_loop repr forecast))"

subsection \<open>The running program\<close>

text \<open>\<open>WeatherClient\<close> and its \<open>__init__\<close>: the client holds the service.\<close>

record WeatherClient =
  api_service :: WeatherAPIService

definition init_client :: "string \<Rightarrow> WeatherClient" where
  "init_client key = \<lparr>api_service = init_service key\<rparr>"

text \<open>
  What the running program does to the outside: the text written to standard output and
  the URLs requested, in order. The environment answers the \<open>n\<close>-th HTTP request of the
  run.
\<close>

record world =
  stdout :: string
  requests :: "string list"

type_synonym http_env = "nat \<Rightarrow> http_get"

definition print_out :: "string \<Rightarrow> world \<Rightarrow> world" where
  "print_out s w = w\<lparr>stdout := stdout w @ print_line s\<rparr>"

text \<open>
  The body of \<open>for city in cities\<close> for a non-empty city; the result is the exception
  that left it, if any. Each fetch makes the next request of the run.
\<close>

definition process_city ::
  "WeatherClient \<Rightarrow> http_env \<Rightarrow> (pyval \<Rightarrow> string) \<Rightarrow> string \<Rightarrow> world \<Rightarrow> exn option \<times> world" where
  "process_city self env repr city w =
     (let w1 = print_out (newline # ''Fetching weather for '' @ city @ ''...'') w;
          w2 = w1\<lparr>requests := requests w1 @ [weather_url (api_service self) city]\<rparr>
      in case fetch_current_weather (api_service self) (env (length (requests w1))) city of
           Inl e \<Rightarrow> (Some e, w2)
         | Inr current_weather \<Rightarrow>
             (let w3 = (case current_weather of
                          Some weather \<Rightarrow> w2\<lparr>stdout := stdout w2 @ display_weather repr weather\<rparr>
                        | None \<Rightarrow>
                            print_out (''City '' @ [CHR 0x27] @ city @ [CHR 0x27] @ '' not found.'') w2);
                  w4 = w3\<lparr>requests := requests w3 @ [forecast_url (api_service self) city]\<rparr>
              in case fetch_forecast (api_service self) (env (length (requests w3))) city of
                   Inl e \<Rightarrow> (Some e, w4)
                 | Inr forecast \<Rightarrow>
                     if forecast \<noteq> []
                     then (case display_forecast repr forecast of
                             Inl e \<Rightarrow> (Some e, w4)
                           | Inr out \<Rightarrow> (None, w4\<lparr>stdout := stdout w4 @ out\<rparr>))
                     else (None,
                       print_out (''No forecast available for '' @ [CHR 0x27] @ city @ [CHR 0x27] @ ''.'') w4)))"

fun process_cities ::
  "WeatherClient \<Rightarrow> http_env \<Rightarrow> (pyval \<Rightarrow> string) \<Rightarrow> string list \<Rightarrow> world \<Rightarrow> exn option \<times> world" where
  "process_cities self env repr [] w = (None, w)"
| "process_cities self env repr (city # cities) w =
     (if city = [] then process_cities self env repr cities w
      else (case process_city self env repr city w of
              (Some e, w') \<Rightarrow> (Some e, w')
            | (None, w') \<Rightarrow> process_cities self env repr cities w'))"

text \<open>
  What \<open>input("Cities: ")\<close> does after writing its prompt: it returns a line, or raises
  \<open>KeyboardInterrupt\<close>, or raises \<open>EOFError\<close> at the end of the input.
\<close>

datatype input_event = Line string | Interrupt | EndOfInput

text \<open>
  One iteration of \<open>while True\<close>; the flag tells whether the iteration left the loop
  by \<open>break\<close>.
\<close>

definition loop_iteration ::
  "WeatherClient \<Rightarrow> http_env \<Rightarrow> (pyval \<Rightarrow> string) \<Rightarrow> input_event \<Rightarrow> world \<Rightarrow> bool \<times> world" where
  "loop_iteration self env repr ev w =
     (let w0 = w\<lparr>stdout := stdout w @ ''Cities: ''\<rparr>
      in case ev of
           Interrupt \<Rightarrow> (True, print_out (newline # ''Exiting...'') w0)
         | EndOfInput \<Rightarrow> (False, print_out ''Unexpected error: EOF when reading a line'' w0)
         | Line l \<Rightarrow>
             (let user_input = strip l
              in if lower user_input = ''quit'' then (True, print_out ''Exiting...'' w0)
                 else
                   (let cities = map strip (split_on CHR '','' user_input)
                    in case process_cities self env repr cities w0 of
                         (None, w1) \<Rightarrow> (False, w1)
                       | (Some (WeatherAPIError m), w1) \<Rightarrow> (False, print_out (''Error: '' @ m) w1)
                       | (Some KeyboardInterrupt, w1) \<Rightarrow>
                           (True, print_out (newline # ''Exiting...'') w1)
                       | (Some e, w1) \<Rightarrow>
                           (False, print_out (''Unexpected error: '' @ str_exn e) w1))))"

text \<open>
  The loop over the inputs that arrive. The result flag is \<open>True\<close> when the method has
  returned, \<open>False\<close> when it has consumed the inputs and waits for the next one.
\<close>

fun input_loop ::
  "WeatherClient \<Rightarrow> http_env \<Rightarrow> (pyval \<Rightarrow> string) \<Rightarrow> input_event list \<Rightarrow> world \<Rightarrow> bool \<times> world" where
  "input_loop self env repr [] w = (False, w)"
| "input_loop self env repr (ev # evs) w =
     (case loop_iteration self env repr ev w of
        (True, w') \<Rightarrow> (True, w')
      | (False, w') \<Rightarrow> input_loop self env repr evs w')"

definition get_weather_for_cities ::
  "WeatherClient \<Rightarrow> http_env \<Rightarrow> (pyval \<Rightarrow> string) \<Rightarrow> input_event list \<Rightarrow> world \<Rightarrow> bool \<times> world" where
  "get_weather_for_cities self env repr evs w =
     input_loop self env repr evs
       (print_out (''Enter city names (separated by commas) or '' @ [CHR 0x27] @ ''quit''
          @ [CHR 0x27] @ '' to exit.'') w)"

section \<open>Sample data\<close>

text \<open>
  The mocked responses of \<open>tests/test_api_service.py\<close> (current weather and forecast for
  London, a 404 and a 500 response) and the record that \<open>tests/test_weather_client.py\<close>
  displays, with a naive datetime. \<open>sample_repr\<close> gives the \<open>repr\<close> of the two floats that
  occur in them. \<open>old_current\<close> is the London response with the timestamp of the first
  second of the year 999.
\<close>

definition sample_service :: WeatherAPIService where
  "sample_service = init_service ''KEY''"

definition london_current :: pyval where
  "london_current =
     PDict [(''name'', PStr ''London''),
            (''main'', PDict [(''temp'', PFloat (float_of_decimal (28315 / 100))),
                              (''humidity'', PInt 80)]),
            (''weather'', PList [PDict [(''description'', PStr ''clear sky'')]]),
            (''wind'', PDict [(''speed'', PFloat (float_of_decimal 5))]),
            (''dt'', PInt 1635778800)]"

definition london_forecast :: pyval where
  "london_forecast =
     PDict [(''city'', PDict [(''name'', PStr ''London'')]),
            (''list'', PList [
               PDict [(''main'', PDict [(''temp'', PFloat (float_of_decimal (28315 / 100))),
                                        (''humidity'', PInt 80)]),
                      (''weather'', PList [PDict [(''description'', PStr ''clear sky'')]]),
                      (''wind'', PDict [(''speed'', PFloat (float_of_decimal 5))]),
                      (''dt'', PInt 1635778800)]])]"

definition ok_response :: "pyval \<Rightarrow> string \<Rightarrow> response" where
  "ok_response body u = \<lparr>status_code = 200, reason = ''OK'', url = u, json_body = Inr body\<rparr>"

definition not_found_response :: "string \<Rightarrow> response" where
  "not_found_response u =
     \<lparr>status_code = 404, reason = ''Not Found'', url = u,
      json_body = Inr (PDict [(''message'', PStr ''city not found'')])\<rparr>"

definition server_error_response :: "string \<Rightarrow> response" where
  "server_error_response u =
     \<lparr>status_code = 500, reason = ''Internal Server Error'', url = u,
      json_body = Inl (RequestException ''Expecting value: line 1 column 1 (char 0)'')\<rparr>"

definition london_record :: WeatherData where
  "london_record =
     \<lparr>city_name = PStr ''London'', temperature = PFloat (Finite 10),
      condition = PStr ''clear sky'', humidity = PInt 80, wind_speed = PFloat (Finite 5),
      timestamp = Some \<lparr>year = 2021, month = 11, day = 1, hour = 15, minute = 0,
                        second = 0, microsecond = 0, tzinfo = Some 0\<rparr>\<rparr>"

definition displayed_record :: WeatherData where
  "displayed_record =
     \<lparr>city_name = PStr ''London'', temperature = PFloat (Finite 10),
      condition = PStr ''clear sky'', humidity = PInt 80, wind_speed = PFloat (Finite 5),
      timestamp = Some \<lparr>year = 2023, month = 11, day = 1, hour = 12, minute = 0,
                        second = 0, microsecond = 0, tzinfo = None\<rparr>\<rparr>"

definition old_current :: pyval where
  "old_current =
     PDict [(''name'', PStr ''London''),
            (''main'', PDict [(''temp'', PFloat (float_of_decimal (28315 / 100))),
                              (''humidity'', PInt 80)]),
            (''weather'', PList [PDict [(''description'', PStr ''clear sky'')]]),
            (''wind'', PDict [(''speed'', PFloat (float_of_decimal 5))]),
            (''dt'', PInt (- 30641760000))]"

definition old_record :: WeatherData where
  "old_record =
     \<lparr>city_name = PStr ''London'', temperature = PFloat (Finite 10),
      condition = PStr ''clear sky'', humidity = PInt 80, wind_speed = PFloat (Finite 5),
      timestamp = Some \<lparr>year = 999, month = 1, day = 1, hour = 0, minute = 0,
                        second = 0, microsecond = 0, tzinfo = Some 0\<rparr>\<rparr>"

definition sample_repr :: "pyval \<Rightarrow> string" where
  "sample_repr v = (if v = PFloat (Finite 10) then ''10.0'' else ''5.0'')"

text \<open>
  A body with the fields of both endpoints for Paris, an environment that answers the
  first two requests of a run with 404 and the later ones with that body, the client and
  the state in which the program starts.
\<close>

definition paris_body :: pyval where
  "paris_body =
     PDict [(''name'', PStr ''Paris''),
            (''main'', PDict [(''temp'', PFloat (float_of_decimal (28315 / 100))),
                              (''humidity'', PInt 80)]),
            (''weather'', PList [PDict [(''description'', PStr ''clear sky'')]]),
            (''wind'', PDict [(''speed'', PFloat (float_of_decimal 5))]),
            (''dt'', PInt 1635778800),
            (''city'', PDict [(''name'', PStr ''Paris'')]),
            (''list'', PList [
               PDict [(''main'', PDict [(''temp'', PFloat (float_of_decimal (28315 / 100))),
                                        (''humidity'', PInt 80)]),
                      (''weather'', PList [PDict [(''description'', PStr ''clear sky'')]]),
                      (''wind'', PDict [(''speed'', PFloat (float_of_decimal 5))]),
                      (''dt'', PInt 1635778800)]])]"

definition paris_record :: WeatherData where
  "paris_record = london_record\<lparr>city_name := PStr ''Paris''\<rparr>"

definition batch_env :: http_env where
  "batch_env n u = (if n < 2 then Inr (not_found_response u) else Inr (ok_response paris_body u))"

definition sample_client :: WeatherClient where
  "sample_client = init_client ''KEY''"

definition initial_world :: world where
  "initial_world = \<lparr>stdout = [], requests = []\<rparr>"

section \<open>Properties of the API service\<close>

lemma bind_Inl [simp]: "bind (Inl e) f = Inl e"
  by (simp add: bind_def)

lemma bind_Inr [simp]: "bind (Inr x) f = f x"
  by (simp add: bind_def)

lemma bind_eq_Inr: "bind m f = Inr y \<longleftrightarrow> (\<exists>x. m = Inr x \<and> f x = Inr y)"
  by (cases m) simp_all

lemma raise_for_status_ok:
  "raise_for_status r = Inr () \<longleftrightarrow> \<not> (400 \<le> status_code r \<and> status_code r < 600)"
  by (auto simp: raise_for_status_def)

text \<open>A record comes out of \<open>fetch_current_weather\<close> only along the success path.\<close>

lemma fetch_current_weather_Some:
  "fetch_current_weather self g city = Inr (Some w) \<longleftrightarrow>
     (\<exists>response data. g (weather_url self city) = Inr response \<and> raise_for_status response = Inr ()
        \<and> json_body response = Inr data \<and> current_weather_data data = Inr w)"
  by (auto simp: fetch_current_weather_def Let_def bind_eq_Inr split: sum.splits exn.splits if_splits)

lemma current_weather_data_fields:
  assumes "current_weather_data data = Inr w"
  shows "\<exists>main temp c r t. getitem_str data ''main'' = Inr main \<and> getitem_str main ''temp'' = Inr temp
     \<and> sub_float temp (float_of_decimal (27315 / 100)) = Inr c \<and> py_round c 1 = Inr r
     \<and> temperature w = PFloat r \<and> timestamp w = Some t"
  using assms by (auto simp: current_weather_data_def kelvin_to_celsius_def bind_eq_Inr)

lemma forecast_weather_data_fields:
  assumes "forecast_weather_data data item = Inr w"
  shows "\<exists>main temp c r t city. getitem_str item ''main'' = Inr main \<and> getitem_str main ''temp'' = Inr temp
     \<and> sub_float temp (float_of_decimal (27315 / 100)) = Inr c \<and> py_round c 1 = Inr r
     \<and> temperature w = PFloat r \<and> timestamp w = Some t
     \<and> getitem_str data ''city'' = Inr city \<and> getitem_str city ''name'' = Inr (city_name w)"
  using assms by (auto simp: forecast_weather_data_def kelvin_to_celsius_def bind_eq_Inr)

text \<open>The loop returns the accumulated list extended by one record per item, in order.\<close>

lemma forecast_loop_Inr:
  "forecast_loop data items acc = Inr ws \<longleftrightarrow>
     (\<exists>new. ws = acc @ new \<and> list_all2 (\<lambda>item w. forecast_weather_data data item = Inr w) items new)"
proof (induction items arbitrary: acc)
  case Nil
  then show ?case by auto
next
  case (Cons item items)
  show ?case
    by (auto simp: bind_eq_Inr Cons.IH list_all2_Cons1)
qed

lemma forecast_data_Inr:
  "forecast_data data = Inr ws \<longleftrightarrow>
     (\<exists>entries items. getitem_str data ''list'' = Inr entries \<and> iter_items entries = Inr items
        \<and> list_all2 (\<lambda>item w. forecast_weather_data data item = Inr w) items ws)"
  by (auto simp: forecast_data_def bind_eq_Inr forecast_loop_Inr)

lemma fetch_forecast_Inr:
  "fetch_forecast self g city = Inr ws \<longleftrightarrow>
     (\<exists>response. g (forecast_url self city) = Inr response \<and>
        (status_code response = 404 \<and> ws = [] \<or>
         raise_for_status response = Inr () \<and>
           (\<exists>data. json_body response = Inr data \<and> forecast_data data = Inr ws)))"
  by (auto simp: fetch_forecast_def Let_def bind_eq_Inr raise_for_status_def
      split: sum.splits exn.splits if_splits)

lemma sample_current_weather:
  "fetch_current_weather sample_service (\<lambda>u. Inr (ok_response london_current u)) ''London''
     = Inr (Some london_record)"
  by code_simp

lemma sample_forecast:
  "fetch_forecast sample_service (\<lambda>u. Inr (ok_response london_forecast u)) ''London''
     = Inr [london_record]"
  by code_simp


lemma round_half_even_cases:
  obtains f d where "x = of_int f + d" "0 \<le> d" "d < 1"
    "round_half_even x = (if d < 1 / 2 then f else if 1 / 2 < d then f + 1
       else if even f then f else f + 1)"
proof -
  define f where "f = \<lfloor>x\<rfloor>"
  define d where "d = x - of_int f"
  have "0 \<le> d" "d < 1" unfolding d_def f_def by linarith+
  moreover have "x = of_int f + d" by (simp add: d_def)
  moreover have "round_half_even x = (if d < 1 / 2 then f else if 1 / 2 < d then f + 1
       else if even f then f else f + 1)"
    by (simp add: round_half_even_def Let_def f_def d_def)
  ultimately show ?thesis using that by blast
qed

lemma round_half_even_near: "\<bar>x - of_int (round_half_even x)\<bar> \<le> 1 / 2"
proof -
  obtain f d where "x = of_int f + d" "0 \<le> d" "d < 1"
    "round_half_even x = (if d < 1 / 2 then f else if 1 / 2 < d then f + 1
       else if even f then f else f + 1)"
    by (rule round_half_even_cases)
  then show ?thesis by (auto simp: abs_if)
qed

lemma round_half_even_tie:
  assumes "\<bar>x - of_int (round_half_even x)\<bar> = 1 / 2"
  shows "even (round_half_even x)"
proof -
  obtain f d where "x = of_int f + d" "0 \<le> d" "d < 1"
    "round_half_even x = (if d < 1 / 2 then f else if 1 / 2 < d then f + 1
       else if even f then f else f + 1)"
    by (rule round_half_even_cases)
  with assms show ?thesis by (auto simp: abs_if split: if_splits)
qed

lemma pow_int_powi: "pow_int 2 e = 2 powi e"
  by (simp add: pow_int_def power_int_def inverse_eq_divide power_one_over)

lemma ilog2_bounds:
  assumes "0 < x"
  shows "pow_int 2 (ilog2 x) \<le> x \<and> x < pow_int 2 (ilog2 x + 1)"
proof -
  obtain p q where pq: "quotient_of x = (p, q)" by (cases "quotient_of x")
  then have q: "0 < q" and x: "x = of_int p / of_int q"
    using quotient_of_denom_pos quotient_of_div by auto
  with assms have p: "0 < p"
    by (simp add: zero_less_divide_iff)
  define a where "a = bitlen p"
  define b where "b = bitlen q"
  from bitlen_bounds [OF p] have pa: "2 ^ nat (a - 1) \<le> p" "p < 2 ^ nat a"
    by (simp_all add: a_def)
  from bitlen_bounds [OF q] have qb: "2 ^ nat (b - 1) \<le> q" "q < 2 ^ nat b"
    by (simp_all add: b_def)
  have a1: "1 \<le> a" using p by (simp add: a_def bitlen_def floorlog_def)
  have b1: "1 \<le> b" using q by (simp add: b_def bitlen_def floorlog_def)
  have P: "(2::rat) powi (a - 1) \<le> of_int p" "of_int p < (2::rat) powi a"
  proof -
    have "(2::rat) powi (a - 1) = of_int (2 ^ nat (a - 1))"
      using a1 by (simp add: power_int_def)
    also have "\<dots> \<le> of_int p" using pa(1) by (simp only: of_int_le_iff)
    finally show "(2::rat) powi (a - 1) \<le> of_int p" .
    have "(of_int p :: rat) < of_int (2 ^ nat a)" using pa(2) by (simp only: of_int_less_iff)
    also have "\<dots> = 2 powi a" using a1 by (simp add: power_int_def)
    finally show "of_int p < (2::rat) powi a" .
  qed
  have Q: "(2::rat) powi (b - 1) \<le> of_int q" "of_int q < (2::rat) powi b"
  proof -
    have "(2::rat) powi (b - 1) = of_int (2 ^ nat (b - 1))"
      using b1 by (simp add: power_int_def)
    also have "\<dots> \<le> of_int q" using qb(1) by (simp only: of_int_le_iff)
    finally show "(2::rat) powi (b - 1) \<le> of_int q" .
    have "(of_int q :: rat) < of_int (2 ^ nat b)" using qb(2) by (simp only: of_int_less_iff)
    also have "\<dots> = 2 powi b" using b1 by (simp add: power_int_def)
    finally show "of_int q < (2::rat) powi b" .
  qed
  have qpos: "(0::rat) < of_int q" using q by simp
  have upper: "x < 2 powi (a - b + 1)"
  proof -
    have "x * 2 powi (b - 1) \<le> x * of_int q"
      using Q(1) assms by (simp add: mult_left_mono)
    also have "\<dots> = of_int p" using x qpos by simp
    also have "\<dots> < 2 powi a" by (rule P(2))
    finally have "x * 2 powi (b - 1) < 2 powi a" .
    then have "x < 2 powi a / 2 powi (b - 1)"
      by (simp add: pos_less_divide_eq)
    also have "\<dots> = 2 powi (a - (b - 1))"
      by (simp add: power_int_diff)
    finally show ?thesis by (simp add: algebra_simps)
  qed
  have lower: "2 powi (a - b - 1) < x"
  proof -
    have "(2::rat) powi (a - 1) \<le> of_int p" by (rule P(1))
    also have "\<dots> = x * of_int q" using x qpos by simp
    also have "\<dots> < x * 2 powi b"
      using Q(2) assms by (simp add: mult_strict_left_mono)
    finally have "(2::rat) powi (a - 1) / 2 powi b < x"
      by (simp add: pos_divide_less_eq)
    moreover have "(2::rat) powi (a - 1) / 2 powi b = 2 powi (a - 1 - b)"
      by (simp add: power_int_diff)
    ultimately show ?thesis by (simp add: algebra_simps)
  qed
  have il: "ilog2 x = (if 2 powi (a - b) \<le> x then a - b else a - b - 1)"
    by (simp add: ilog2_def pq a_def b_def Let_def pow_int_powi)
  show ?thesis
  proof (cases "2 powi (a - b) \<le> x")
    case True
    with il upper show ?thesis by (simp add: pow_int_powi)
  next
    case False
    with il have i: "ilog2 x = a - b - 1" by simp
    have "ilog2 x + 1 = a - b" by (simp add: i)
    with False lower show ?thesis by (simp add: pow_int_powi i)
  qed
qed


lemma pow_int_add: "pow_int 2 (a + b) = pow_int 2 a * pow_int 2 b"
  by (simp add: pow_int_powi power_int_add)

lemma pow_int_pos: "0 < pow_int 2 e"
  by (simp add: pow_int_powi)

lemma round_binary64_nearest:
  assumes "x \<noteq> 0" and "round_binary64 x = Finite y"
  shows "\<exists>m e. - 1074 \<le> e \<and> y = of_int m * pow_int 2 e \<and> \<bar>m\<bar> \<le> 2 ^ 53
    \<and> (e = - 1074 \<or> 2 ^ 52 \<le> \<bar>m\<bar>)
    \<and> \<bar>x - y\<bar> \<le> pow_int 2 e / 2
    \<and> (\<bar>x - y\<bar> = pow_int 2 e / 2 \<longrightarrow> even m)"
proof -
  define e where "e = max (ilog2 \<bar>x\<bar> - 52) (- 1074)"
  define z where "z = x / pow_int 2 e"
  define m where "m = round_half_even z"
  have pe: "0 < pow_int 2 e" by (rule pow_int_pos)
  from assms have y: "y = of_int m * pow_int 2 e"
    by (auto simp: round_binary64_def Let_def e_def m_def z_def split: if_splits)
  have xz: "x = z * pow_int 2 e" using pe by (simp add: z_def)
  have near: "\<bar>z - of_int m\<bar> \<le> 1 / 2" unfolding m_def by (rule round_half_even_near)
  have "x - y = (z - of_int m) * pow_int 2 e"
    by (simp add: xz y left_diff_distrib)
  then have diff: "\<bar>x - y\<bar> = \<bar>z - of_int m\<bar> * pow_int 2 e"
    using pe by (simp add: abs_mult)
  have 1: "\<bar>x - y\<bar> \<le> pow_int 2 e / 2"
  proof -
    have "\<bar>z - of_int m\<bar> * pow_int 2 e \<le> (1 / 2) * pow_int 2 e"
      using near pe by (intro mult_right_mono) simp_all
    then show ?thesis by (simp add: diff)
  qed
  have 2: "even m" if "\<bar>x - y\<bar> = pow_int 2 e / 2"
  proof -
    from that pe have "\<bar>z - of_int m\<bar> = 1 / 2" by (simp add: diff)
    then show ?thesis unfolding m_def by (rule round_half_even_tie)
  qed
  have ax: "0 < \<bar>x\<bar>" using assms by simp
  note b = ilog2_bounds [OF ax]
  have zabs: "\<bar>z\<bar> = \<bar>x\<bar> / pow_int 2 e" using pe by (simp add: z_def)
  have zub: "\<bar>z\<bar> < 2 ^ 53"
  proof -
    have "ilog2 \<bar>x\<bar> + 1 \<le> e + 53" by (simp add: e_def)
    then have "pow_int 2 (ilog2 \<bar>x\<bar> + 1) \<le> pow_int 2 (e + 53)"
      by (simp add: pow_int_powi power_int_increasing)
    with b have "\<bar>x\<bar> < pow_int 2 (e + 53)" by simp
    also have "\<dots> = pow_int 2 e * 2 ^ 53"
      by (simp add: pow_int_add) (simp add: pow_int_def)
    finally show ?thesis using pe by (simp add: zabs pos_divide_less_eq mult.commute)
  qed
  have 3: "\<bar>m\<bar> \<le> 2 ^ 53"
  proof -
    from near zub have "\<bar>of_int m :: rat\<bar> < 2 ^ 53 + 1" by linarith
    then have "(of_int \<bar>m\<bar> :: rat) < of_int (2 ^ 53 + 1)" by simp
    then have "\<bar>m\<bar> < 2 ^ 53 + 1" by (simp only: of_int_less_iff)
    then show ?thesis by simp
  qed
  have 4: "e = - 1074 \<or> 2 ^ 52 \<le> \<bar>m\<bar>"
  proof (cases "e = - 1074")
    case True
    then show ?thesis by simp
  next
    case False
    then have e: "e = ilog2 \<bar>x\<bar> - 52" by (simp add: e_def max_def split: if_splits)
    have "pow_int 2 (ilog2 \<bar>x\<bar>) = pow_int 2 (e + 52)" by (simp add: e)
    also have "\<dots> = pow_int 2 e * 2 ^ 52"
      by (simp add: pow_int_add) (simp add: pow_int_def)
    finally have "pow_int 2 e * 2 ^ 52 \<le> \<bar>x\<bar>" using b by simp
    with pe have zl: "2 ^ 52 \<le> \<bar>z\<bar>" by (simp add: zabs pos_le_divide_eq mult.commute)
    with near have "(2 ^ 52 - 1 :: rat) < \<bar>of_int m\<bar>" by linarith
    then have "(of_int (2 ^ 52 - 1) :: rat) < of_int \<bar>m\<bar>" by simp
    then have "2 ^ 52 - 1 < \<bar>m\<bar>" by (simp only: of_int_less_iff)
    then show ?thesis by simp
  qed
  have "- 1074 \<le> e" by (simp add: e_def)
  with y 1 2 3 4 show ?thesis by blast
qed


lemma py_round_tenth:
  assumes "py_round (Finite q) 1 = Inr r"
  shows "\<exists>n. \<bar>q * 10 - of_int n\<bar> \<le> 1 / 2 \<and> (\<bar>q * 10 - of_int n\<bar> = 1 / 2 \<longrightarrow> even n)
    \<and> r = (if n = 0 \<and> q < 0 then NegZero else round_binary64 (of_int n / 10))"
proof -
  define n where "n = round_half_even (q * 10)"
  have s: "pow_int 10 1 = 10" by (simp add: pow_int_def)
  from assms have "r = (if n = 0 \<and> q < 0 then NegZero else round_binary64 (of_int n / 10))"
    by (auto simp: py_round_def s Let_def n_def split: pyfloat.splits if_splits)
  moreover have "\<bar>q * 10 - of_int n\<bar> \<le> 1 / 2"
    unfolding n_def by (rule round_half_even_near)
  moreover have "\<bar>q * 10 - of_int n\<bar> = 1 / 2 \<longrightarrow> even n"
    unfolding n_def using round_half_even_tie by blast
  ultimately show ?thesis by blast
qed

lemma kelvin_283_15:
  "bind (kelvin_to_celsius (PFloat (float_of_decimal (28315 / 100)))) (\<lambda>c. py_round c 1)
     = Inr (Finite 10)"
  by code_simp

lemma kelvin_300:
  "kelvin_to_celsius (PInt 300) = Inr (Finite (236175097646285 / 8796093022208))
   \<and> py_round (Finite (236175097646285 / 8796093022208)) 1
       = Inr (Finite (3785838436758323 / 140737488355328))"
  by code_simp

lemma kelvin_273_2:
  "kelvin_to_celsius (PFloat (float_of_decimal (2732 / 10)))
     = Inr (Finite (879609302221 / 17592186044416))
   \<and> py_round (Finite (879609302221 / 17592186044416)) 1
       = Inr (Finite (3602879701896397 / 36028797018963968))"
  by code_simp

lemma kelvin_273_4:
  "kelvin_to_celsius (PFloat (float_of_decimal (2734 / 10))) = Inr (Finite (1 / 4))
   \<and> py_round (Finite (1 / 4)) 1 = Inr (Finite (3602879701896397 / 18014398509481984))"
  by code_simp

lemma literal_273_15:
  "float_of_decimal (27315 / 100) = Finite (2402652809016115 / 8796093022208)"
  by code_simp

text \<open>
  Claim C1. Whenever \<open>fetch_current_weather\<close> returns a record, and for every record that
  \<open>fetch_forecast\<close> returns, the stored temperature is the float
  \<open>round(k - 273.15, 1)\<close>, where \<open>k\<close> is the \<open>main.temp\<close> field of the response (of the
  \<open>i\<close>-th entry of the forecast list) and subtraction and rounding are those of Python
  floats. What these are is stated with it: \<open>round(c, 1)\<close> of a finite \<open>c\<close> is the float
  read from \<open>n / 10\<close> for an integer \<open>n\<close> at distance at most one half from \<open>10 c\<close>, even
  when the distance is one half; the float read from a number \<open>x\<close>, such as the literal
  273.15, is a nearest number with a significand of 53 bits, with an even significand
  when two are nearest; the difference of two finite floats is the float read from
  their exact difference. The Kelvin input 283.15 gives exactly 10.0, the input 300
  gives 26.850000000000023 before rounding and 26.9 after it, 273.2 gives 0.1 and 273.4
  gives 0.25 before rounding and 0.2 after it.
\<close>

theorem temperature_rounded_celsius:
  "(fetch_current_weather self g city = Inr (Some w) \<longrightarrow>
      (\<exists>response data main k c r.
          g (weather_url self city) = Inr response \<and> json_body response = Inr data
        \<and> getitem_str data ''main'' = Inr main \<and> getitem_str main ''temp'' = Inr k
        \<and> sub_float k (float_of_decimal (27315 / 100)) = Inr c \<and> py_round c 1 = Inr r
        \<and> temperature w = PFloat r))
   \<and> (fetch_forecast self g city = Inr ws \<and> i < length ws \<longrightarrow>
      (\<exists>response data entries items main k c r.
          g (forecast_url self city) = Inr response \<and> json_body response = Inr data
        \<and> getitem_str data ''list'' = Inr entries \<and> iter_items entries = Inr items
        \<and> length items = length ws
        \<and> getitem_str (items ! i) ''main'' = Inr main \<and> getitem_str main ''temp'' = Inr k
        \<and> sub_float k (float_of_decimal (27315 / 100)) = Inr c \<and> py_round c 1 = Inr r
        \<and> temperature (ws ! i) = PFloat r))
   \<and> (py_round (Finite q) 1 = Inr r \<longrightarrow>
        (\<exists>n. \<bar>q * 10 - of_int n\<bar> \<le> 1 / 2 \<and> (\<bar>q * 10 - of_int n\<bar> = 1 / 2 \<longrightarrow> even n)
           \<and> r = (if n = 0 \<and> q < 0 then NegZero else round_binary64 (of_int n / 10))))
   \<and> (x \<noteq> 0 \<and> float_of_decimal x = Finite y \<longrightarrow>
        (\<exists>m e. - 1074 \<le> e \<and> y = of_int m * pow_int 2 e \<and> \<bar>m\<bar> \<le> 2 ^ 53
           \<and> (e = - 1074 \<or> 2 ^ 52 \<le> \<bar>m\<bar>)
           \<and> \<bar>x - y\<bar> \<le> pow_int 2 e / 2
           \<and> (\<bar>x - y\<bar> = pow_int 2 e / 2 \<longrightarrow> even m)))
   \<and> sub_float (PFloat (Finite a)) (Finite b) = Inr (round_binary64 (a - b))
   \<and> float_of_decimal (27315 / 100) = Finite (2402652809016115 / 8796093022208)
   \<and> bind (kelvin_to_celsius (PFloat (float_of_decimal (28315 / 100)))) (\<lambda>c. py_round c 1)
       = Inr (Finite 10)
   \<and> kelvin_to_celsius (PInt 300) = Inr (Finite (236175097646285 / 8796093022208))
   \<and> py_round (Finite (236175097646285 / 8796093022208)) 1
       = Inr (Finite (3785838436758323 / 140737488355328))
   \<and> kelvin_to_celsius (PFloat (float_of_decimal (2732 / 10)))
       = Inr (Finite (879609302221 / 17592186044416))
   \<and> py_round (Finite (879609302221 / 17592186044416)) 1
       = Inr (Finite (3602879701896397 / 36028797018963968))
   \<and> kelvin_to_celsius (PFloat (float_of_decimal (2734 / 10))) = Inr (Finite (1 / 4))
   \<and> py_round (Finite (1 / 4)) 1 = Inr (Finite (3602879701896397 / 18014398509481984))"
proof (intro conjI impI)
  assume "fetch_current_weather self g city = Inr (Some w)"
  then obtain response data where
    "g (weather_url self city) = Inr response" "json_body response = Inr data"
    "current_weather_data data = Inr w"
    by (auto simp: fetch_current_weather_Some)
  then show "\<exists>response data main k c r.
          g (weather_url self city) = Inr response \<and> json_body response = Inr data
        \<and> getitem_str data ''main'' = Inr main \<and> getitem_str main ''temp'' = Inr k
        \<and> sub_float k (float_of_decimal (27315 / 100)) = Inr c \<and> py_round c 1 = Inr r
        \<and> temperature w = PFloat r"
    using current_weather_data_fields [of data w] by blast
next
  assume a: "fetch_forecast self g city = Inr ws \<and> i < length ws"
  then have "ws \<noteq> []" by auto
  with a obtain response data entries items where
    r: "g (forecast_url self city) = Inr response" "json_body response = Inr data"
       "getitem_str data ''list'' = Inr entries" "iter_items entries = Inr items"
    and all: "list_all2 (\<lambda>item w. forecast_weather_data data item = Inr w) items ws"
    by (auto simp: fetch_forecast_Inr forecast_data_Inr)
  from all a have len: "length items = length ws"
    and "forecast_weather_data data (items ! i) = Inr (ws ! i)"
    by (auto simp: list_all2_conv_all_nth)
  then show "\<exists>response data entries items main k c r.
          g (forecast_url self city) = Inr response \<and> json_body response = Inr data
        \<and> getitem_str data ''list'' = Inr entries \<and> iter_items entries = Inr items
        \<and> length items = length ws
        \<and> getitem_str (items ! i) ''main'' = Inr main \<and> getitem_str main ''temp'' = Inr k
        \<and> sub_float k (float_of_decimal (27315 / 100)) = Inr c \<and> py_round c 1 = Inr r
        \<and> temperature (ws ! i) = PFloat r"
    using forecast_weather_data_fields [of data "items ! i" "ws ! i"] r by blast
next
  assume "py_round (Finite q) 1 = Inr r"
  then show "\<exists>n. \<bar>q * 10 - of_int n\<bar> \<le> 1 / 2 \<and> (\<bar>q * 10 - of_int n\<bar> = 1 / 2 \<longrightarrow> even n)
           \<and> r = (if n = 0 \<and> q < 0 then NegZero else round_binary64 (of_int n / 10))"
    by (rule py_round_tenth)
next
  assume "x \<noteq> 0 \<and> float_of_decimal x = Finite y"
  then show "\<exists>m e. - 1074 \<le> e \<and> y = of_int m * pow_int 2 e \<and> \<bar>m\<bar> \<le> 2 ^ 53
           \<and> (e = - 1074 \<or> 2 ^ 52 \<le> \<bar>m\<bar>)
           \<and> \<bar>x - y\<bar> \<le> pow_int 2 e / 2
           \<and> (\<bar>x - y\<bar> = pow_int 2 e / 2 \<longrightarrow> even m)"
    using round_binary64_nearest [of x y] by (simp add: float_of_decimal_def)
next
  show "sub_float (PFloat (Finite a)) (Finite b) = Inr (round_binary64 (a - b))"
    by simp
qed (use literal_273_15 kelvin_283_15 kelvin_300 kelvin_273_2 kelvin_273_4 in blast)+

theorem temperature_rounded_celsius_witness:
  "fetch_current_weather sample_service (\<lambda>u. Inr (ok_response london_current u)) ''London''
     = Inr (Some london_record)
   \<and> (\<exists>response data main k c r.
         ok_response london_current (weather_url sample_service ''London'') = response
       \<and> json_body response = Inr data
       \<and> getitem_str data ''main'' = Inr main \<and> getitem_str main ''temp'' = Inr k
       \<and> sub_float k (float_of_decimal (27315 / 100)) = Inr c \<and> py_round c 1 = Inr r
       \<and> temperature london_record = PFloat r)
   \<and> fetch_forecast sample_service (\<lambda>u. Inr (ok_response london_forecast u)) ''London''
       = Inr [london_record]
   \<and> (0::nat) < length [london_record]
   \<and> (\<exists>items main k c r.
         bind (getitem_str london_forecast ''list'') iter_items = Inr items
       \<and> getitem_str (items ! 0) ''main'' = Inr main \<and> getitem_str main ''temp'' = Inr k
       \<and> sub_float k (float_of_decimal (27315 / 100)) = Inr c \<and> py_round c 1 = Inr r
       \<and> temperature ([london_record] ! 0) = PFloat r)
   \<and> py_round (Finite (1 / 4)) 1 = Inr (Finite (3602879701896397 / 18014398509481984))
   \<and> (\<exists>n. \<bar>(1 / 4 :: rat) * 10 - of_int n\<bar> \<le> 1 / 2 \<and> even n
        \<and> Finite (3602879701896397 / 18014398509481984) = round_binary64 (of_int n / 10))
   \<and> (27315 / 100 :: rat) \<noteq> 0
   \<and> float_of_decimal (27315 / 100) = Finite (2402652809016115 / 8796093022208)
   \<and> (\<exists>m e. (2402652809016115 / 8796093022208 :: rat) = of_int m * pow_int 2 e
        \<and> \<bar>m\<bar> \<le> 2 ^ 53
        \<and> \<bar>27315 / 100 - 2402652809016115 / 8796093022208 :: rat\<bar> \<le> pow_int 2 e / 2)"
proof -
  let ?g1 = "\<lambda>u. Inr (ok_response london_current u) :: exn + response"
  let ?g2 = "\<lambda>u. Inr (ok_response london_forecast u) :: exn + response"
  have h1: "fetch_current_weather sample_service ?g1 ''London'' = Inr (Some london_record)"
    by (rule sample_current_weather)
  have h2: "fetch_forecast sample_service ?g2 ''London'' = Inr [london_record]
      \<and> (0::nat) < length [london_record]"
    by (simp add: sample_forecast)
  have c1: "\<exists>response data main k c r.
         ok_response london_current (weather_url sample_service ''London'') = response
       \<and> json_body response = Inr data
       \<and> getitem_str data ''main'' = Inr main \<and> getitem_str main ''temp'' = Inr k
       \<and> sub_float k (float_of_decimal (27315 / 100)) = Inr c \<and> py_round c 1 = Inr r
       \<and> temperature london_record = PFloat r"
    using temperature_rounded_celsius [of sample_service ?g1 "''London''" london_record, THEN conjunct1, rule_format, OF h1]
    by (auto simp: ok_response_def)
  have c2: "\<exists>items main k c r.
         bind (getitem_str london_forecast ''list'') iter_items = Inr items
       \<and> getitem_str (items ! 0) ''main'' = Inr main \<and> getitem_str main ''temp'' = Inr k
       \<and> sub_float k (float_of_decimal (27315 / 100)) = Inr c \<and> py_round c 1 = Inr r
       \<and> temperature ([london_record] ! 0) = PFloat r"
    using temperature_rounded_celsius [of sample_service ?g2 "''London''" _ "[london_record]" 0, THEN conjunct2, THEN conjunct1, rule_format, OF h2]
    by (auto simp: ok_response_def)
  note th = temperature_rounded_celsius [of sample_service ?g1 "''London''" london_record _ _
      "1 / 4" "Finite (3602879701896397 / 18014398509481984)"
      "27315 / 100" "2402652809016115 / 8796093022208"]
  have r: "py_round (Finite (1 / 4)) 1 = Inr (Finite (3602879701896397 / 18014398509481984))"
    using kelvin_273_4 by blast
  from th r obtain n where n: "\<bar>(1 / 4 :: rat) * 10 - of_int n\<bar> \<le> 1 / 2"
    "\<bar>(1 / 4 :: rat) * 10 - of_int n\<bar> = 1 / 2 \<longrightarrow> even n"
    "Finite (3602879701896397 / 18014398509481984)
       = (if n = 0 \<and> (1 / 4 :: rat) < 0 then NegZero else round_binary64 (of_int n / 10))"
    by blast
  from n(1) have "n = 2 \<or> n = 3" by (auto simp: abs_if split: if_splits)
  with n(2) have "even n" by auto
  with n have c3: "\<exists>n. \<bar>(1 / 4 :: rat) * 10 - of_int n\<bar> \<le> 1 / 2 \<and> even n
        \<and> Finite (3602879701896397 / 18014398509481984) = round_binary64 (of_int n / 10)"
    by auto
  have "(27315 / 100 :: rat) \<noteq> 0"
    by simp
  with literal_273_15 have l: "(27315 / 100 :: rat) \<noteq> 0
      \<and> float_of_decimal (27315 / 100) = Finite (2402652809016115 / 8796093022208)"
    by blast
  with th have c4: "\<exists>m e. (2402652809016115 / 8796093022208 :: rat) = of_int m * pow_int 2 e
        \<and> \<bar>m\<bar> \<le> 2 ^ 53
        \<and> \<bar>27315 / 100 - 2402652809016115 / 8796093022208 :: rat\<bar> \<le> pow_int 2 e / 2"
    by blast
  from h1 h2 c1 c2 r c3 l c4 show ?thesis by blast
qed



text \<open>
  Claim C2. For every city, when the response to the current-weather request has
  status 404, \<open>fetch_current_weather\<close> returns \<open>None\<close>; it raises nothing.
\<close>

theorem current_weather_not_found:
  assumes "g (weather_url self city) = Inr response" and "status_code response = 404"
  shows "fetch_current_weather self g city = Inr None"
  using assms by (simp add: fetch_current_weather_def raise_for_status_def)

theorem current_weather_not_found_witness:
  "status_code (not_found_response (weather_url sample_service ''InvalidCity'')) = 404
   \<and> fetch_current_weather sample_service (\<lambda>u. Inr (not_found_response u)) ''InvalidCity'' = Inr None"
  using current_weather_not_found [of "\<lambda>u. Inr (not_found_response u)" sample_service "''InvalidCity''"
      "not_found_response (weather_url sample_service ''InvalidCity'')"]
  by (simp add: not_found_response_def)

text \<open>
  Claim C3. For every city, when the response to the current-weather request has an
  HTTP error status (400 to 599) other than 404, \<open>fetch_current_weather\<close> raises
  \<open>WeatherAPIError\<close> with the message \<open>HTTP error occurred: \<close> followed by the text of the
  HTTP error; when the request fails below HTTP (a \<open>RequestException\<close> of the library)
  it raises \<open>WeatherAPIError\<close> with the message \<open>Error fetching weather data: \<close> followed
  by the text of the failure. In both cases no value is returned.
\<close>

theorem current_weather_service_error:
  "(g (weather_url self city) = Inr response \<and> 400 \<le> status_code response
      \<and> status_code response < 600 \<and> status_code response \<noteq> 404
    \<longrightarrow> (\<exists>m. raise_for_status response = Inl (HTTPError m)
          \<and> fetch_current_weather self g city = Inl (WeatherAPIError (''HTTP error occurred: '' @ m))))
   \<and> (g (weather_url self city) = Inl (RequestException m')
    \<longrightarrow> fetch_current_weather self g city = Inl (WeatherAPIError (''Error fetching weather data: '' @ m')))"
  by (auto simp: fetch_current_weather_def raise_for_status_def)

theorem current_weather_service_error_witness:
  "(400::int) \<le> status_code (server_error_response (weather_url sample_service ''London''))
   \<and> status_code (server_error_response (weather_url sample_service ''London'')) < 600
   \<and> status_code (server_error_response (weather_url sample_service ''London'')) \<noteq> 404
   \<and> (\<exists>m. fetch_current_weather sample_service (\<lambda>u. Inr (server_error_response u)) ''London''
          = Inl (WeatherAPIError (''HTTP error occurred: '' @ m)))
   \<and> fetch_current_weather sample_service (\<lambda>u. Inl (RequestException ''Connection refused'')) ''London''
       = Inl (WeatherAPIError ''Error fetching weather data: Connection refused'')"
proof -
  let ?r = "server_error_response (weather_url sample_service ''London'')"
  have s: "status_code ?r = 500" by (simp add: server_error_response_def)
  have "\<exists>m. fetch_current_weather sample_service (\<lambda>u. Inr (server_error_response u)) ''London''
          = Inl (WeatherAPIError (''HTTP error occurred: '' @ m))"
    using current_weather_service_error [of "\<lambda>u. Inr (server_error_response u)" sample_service
        "''London''" ?r, THEN conjunct1] s
    by auto
  moreover have "fetch_current_weather sample_service (\<lambda>u. Inl (RequestException ''Connection refused'')) ''London''
       = Inl (WeatherAPIError ''Error fetching weather data: Connection refused'')"
    using current_weather_service_error [of "\<lambda>u. Inl (RequestException ''Connection refused'')"
        sample_service "''London''" _ "''Connection refused''", THEN conjunct2]
    by simp
  ultimately show ?thesis using s by simp
qed

text \<open>
  Claim C4. For every city, \<open>fetch_forecast\<close> returns the empty list when the response has
  status 404, and raises \<open>WeatherAPIError\<close> for any other HTTP error status and for a
  failure of the request below HTTP.
\<close>

theorem forecast_not_found_and_errors:
  "(g (forecast_url self city) = Inr response \<and> status_code response = 404
    \<longrightarrow> fetch_forecast self g city = Inr [])
   \<and> (g (forecast_url self city) = Inr response \<and> 400 \<le> status_code response
      \<and> status_code response < 600 \<and> status_code response \<noteq> 404
    \<longrightarrow> (\<exists>m. raise_for_status response = Inl (HTTPError m)
          \<and> fetch_forecast self g city = Inl (WeatherAPIError (''HTTP error occurred: '' @ m))))
   \<and> (g (forecast_url self city) = Inl (RequestException m')
    \<longrightarrow> fetch_forecast self g city = Inl (WeatherAPIError (''Error fetching forecast data: '' @ m')))"
  by (auto simp: fetch_forecast_def raise_for_status_def)

theorem forecast_not_found_and_errors_witness:
  "status_code (not_found_response (forecast_url sample_service ''InvalidCity'')) = 404
   \<and> fetch_forecast sample_service (\<lambda>u. Inr (not_found_response u)) ''InvalidCity'' = Inr []
   \<and> (400::int) \<le> status_code (server_error_response (forecast_url sample_service ''London''))
   \<and> status_code (server_error_response (forecast_url sample_service ''London'')) < 600
   \<and> status_code (server_error_response (forecast_url sample_service ''London'')) \<noteq> 404
   \<and> (\<exists>m. fetch_forecast sample_service (\<lambda>u. Inr (server_error_response u)) ''London''
          = Inl (WeatherAPIError (''HTTP error occurred: '' @ m)))
   \<and> fetch_forecast sample_service (\<lambda>u. Inl (RequestException ''Connection refused'')) ''London''
       = Inl (WeatherAPIError ''Error fetching forecast data: Connection refused'')"
proof -
  let ?n = "not_found_response (forecast_url sample_service ''InvalidCity'')"
  let ?r = "server_error_response (forecast_url sample_service ''London'')"
  have n: "status_code ?n = 404" by (simp add: not_found_response_def)
  have s: "status_code ?r = 500" by (simp add: server_error_response_def)
  have "fetch_forecast sample_service (\<lambda>u. Inr (not_found_response u)) ''InvalidCity'' = Inr []"
    using forecast_not_found_and_errors [of "\<lambda>u. Inr (not_found_response u)" sample_service
        "''InvalidCity''" ?n, THEN conjunct1] n
    by simp
  moreover have "\<exists>m. fetch_forecast sample_service (\<lambda>u. Inr (server_error_response u)) ''London''
          = Inl (WeatherAPIError (''HTTP error occurred: '' @ m))"
    using forecast_not_found_and_errors [of "\<lambda>u. Inr (server_error_response u)" sample_service
        "''London''" ?r, THEN conjunct2, THEN conjunct1] s
    by auto
  moreover have "fetch_forecast sample_service (\<lambda>u. Inl (RequestException ''Connection refused'')) ''London''
       = Inl (WeatherAPIError ''Error fetching forecast data: Connection refused'')"
    using forecast_not_found_and_errors [of "\<lambda>u. Inl (RequestException ''Connection refused'')"
        sample_service "''London''" _ "''Connection refused''", THEN conjunct2, THEN conjunct2]
    by simp
  ultimately show ?thesis using n s by simp
qed


text \<open>
  Claim C5. For a forecast response without an HTTP error status whose \<open>list\<close> field is
  a list of \<open>N\<close> entries, \<open>fetch_forecast\<close> returns a list \<open>ws\<close> exactly when \<open>ws\<close>
  consists of the records built from the entries, one per entry and in their order;
  then \<open>ws\<close> has \<open>N\<close> records, and the city name of every record is the \<open>city.name\<close>
  field of the response.
\<close>

theorem forecast_one_record_per_entry:
  assumes "g (forecast_url self city) = Inr response"
    and "raise_for_status response = Inr ()"
    and "json_body response = Inr data"
    and "getitem_str data ''list'' = Inr (PList items)"
  shows "(fetch_forecast self g city = Inr ws \<longleftrightarrow>
            list_all2 (\<lambda>item w. forecast_weather_data data item = Inr w) items ws)
    \<and> (fetch_forecast self g city = Inr ws \<longrightarrow>
          length ws = length items
        \<and> (\<forall>i < length items. forecast_weather_data data (items ! i) = Inr (ws ! i))
        \<and> (\<forall>w \<in> set ws. \<exists>c. getitem_str data ''city'' = Inr c
              \<and> getitem_str c ''name'' = Inr (city_name w)))"
proof -
  from assms(2) have "status_code response \<noteq> 404"
    by (auto simp: raise_for_status_ok)
  with assms have eq: "fetch_forecast self g city = Inr ws \<longleftrightarrow>
      list_all2 (\<lambda>item w. forecast_weather_data data item = Inr w) items ws"
    by (auto simp: fetch_forecast_Inr forecast_data_Inr)
  have "length ws = length items
        \<and> (\<forall>i < length items. forecast_weather_data data (items ! i) = Inr (ws ! i))
        \<and> (\<forall>w \<in> set ws. \<exists>c. getitem_str data ''city'' = Inr c
              \<and> getitem_str c ''name'' = Inr (city_name w))"
    if all: "list_all2 (\<lambda>item w. forecast_weather_data data item = Inr w) items ws"
  proof -
    from all have len: "length ws = length items"
      by (simp add: list_all2_lengthD)
    from all have nth: "\<forall>i < length items. forecast_weather_data data (items ! i) = Inr (ws ! i)"
      by (simp add: list_all2_conv_all_nth)
    have "\<exists>c. getitem_str data ''city'' = Inr c \<and> getitem_str c ''name'' = Inr (city_name w)"
      if "w \<in> set ws" for w
    proof -
      from that obtain i where "i < length ws" "ws ! i = w"
        by (auto simp: in_set_conv_nth)
      with nth len have "forecast_weather_data data (items ! i) = Inr w"
        by auto
      then show ?thesis
        using forecast_weather_data_fields [of data "items ! i" w] by blast
    qed
    with len nth show ?thesis by blast
  qed
  with eq show ?thesis by blast
qed

theorem forecast_one_record_per_entry_witness:
  "raise_for_status (ok_response london_forecast (forecast_url sample_service ''London'')) = Inr ()
   \<and> fetch_forecast sample_service (\<lambda>u. Inr (ok_response london_forecast u)) ''London''
       = Inr [london_record]
   \<and> (\<exists>items c. getitem_str london_forecast ''list'' = Inr (PList items)
        \<and> length [london_record] = length items
        \<and> forecast_weather_data london_forecast (items ! 0) = Inr ([london_record] ! 0)
        \<and> getitem_str london_forecast ''city'' = Inr c
        \<and> getitem_str c ''name'' = Inr (city_name london_record))"
proof -
  let ?g = "\<lambda>u. Inr (ok_response london_forecast u) :: exn + response"
  let ?r = "ok_response london_forecast (forecast_url sample_service ''London'')"
  have ok: "raise_for_status ?r = Inr ()"
    by (simp add: raise_for_status_def ok_response_def)
  have body: "json_body ?r = Inr london_forecast"
    by (simp add: ok_response_def)
  obtain items where items: "getitem_str london_forecast ''list'' = Inr (PList items)"
    by (simp add: london_forecast_def)
  note th = forecast_one_record_per_entry [of ?g sample_service "''London''" ?r london_forecast items
      "[london_record]", OF refl ok body items, THEN conjunct2, rule_format, OF sample_forecast]
  from th have len: "length [london_record] = length items"
    by simp
  then have pos: "0 < length items"
    by (cases items) simp_all
  from th have "\<forall>i < length items. forecast_weather_data london_forecast (items ! i)
      = Inr ([london_record] ! i)"
    by blast
  with pos have "forecast_weather_data london_forecast (items ! 0) = Inr ([london_record] ! 0)"
    by blast
  moreover from th
  have "\<exists>c. getitem_str london_forecast ''city'' = Inr c
      \<and> getitem_str c ''name'' = Inr (city_name london_record)"
    by simp
  ultimately show ?thesis
    using ok items len sample_forecast by blast
qed

text \<open>
  Claim C10. Every record returned by \<open>fetch_current_weather\<close> or \<open>fetch_forecast\<close> has a
  timestamp that is present, although the field is optional in the record type.
\<close>

theorem returned_timestamps_present:
  "(fetch_current_weather self g city = Inr (Some w) \<longrightarrow> timestamp w \<noteq> None)
   \<and> (fetch_forecast self g city = Inr ws \<longrightarrow> (\<forall>w \<in> set ws. timestamp w \<noteq> None))"
proof (intro conjI impI ballI)
  assume "fetch_current_weather self g city = Inr (Some w)"
  then obtain data where "current_weather_data data = Inr w"
    by (auto simp: fetch_current_weather_Some)
  then show "timestamp w \<noteq> None"
    using current_weather_data_fields [of data w] by auto
next
  fix w
  assume "fetch_forecast self g city = Inr ws" and w: "w \<in> set ws"
  then obtain data items where "list_all2 (\<lambda>item w. forecast_weather_data data item = Inr w) items ws"
    by (auto simp: fetch_forecast_Inr forecast_data_Inr)
  with w obtain item where "forecast_weather_data data item = Inr w"
    by (auto simp: list_all2_conv_all_nth in_set_conv_nth)
  then show "timestamp w \<noteq> None"
    using forecast_weather_data_fields [of data item w] by auto
qed

theorem returned_timestamps_present_witness:
  "fetch_current_weather sample_service (\<lambda>u. Inr (ok_response london_current u)) ''London''
     = Inr (Some london_record)
   \<and> timestamp london_record \<noteq> None
   \<and> fetch_forecast sample_service (\<lambda>u. Inr (ok_response london_forecast u)) ''London''
       = Inr [london_record]
   \<and> london_record \<in> set [london_record]"
  using returned_timestamps_present [of sample_service "\<lambda>u. Inr (ok_response london_current u)"
      "''London''" london_record, THEN conjunct1]
    sample_current_weather sample_forecast
  by simp


section \<open>Properties of the client\<close>

lemma sublist_middle: "sublist xs (ps @ xs @ ss)"
  by (auto simp: sublist_def)

lemma sublist_in_line: "sublist xs (ps @ print_line xs @ ss)"
  unfolding print_line_def sublist_def
  by (intro exI [of _ ps] exI [of _ "newline # ss"]) simp

lemma length_digits_1: "n < 10 \<Longrightarrow> length (digits n) = 1"
  by (simp add: digits.simps)

lemma length_digits_step: "10 \<le> n \<Longrightarrow> length (digits n) = Suc (length (digits (n div 10)))"
  by (subst digits.simps) simp

lemma length_digits_2:
  assumes "10 \<le> n" and "n < 100"
  shows "length (digits n) = 2"
proof -
  from assms have "n div 10 < 10" by linarith
  then have "length (digits (n div 10)) = 1" by (rule length_digits_1)
  with assms length_digits_step [of n] show ?thesis by simp
qed

lemma length_digits_3:
  assumes "100 \<le> n" and "n < 1000"
  shows "length (digits n) = 3"
proof -
  from assms have "10 \<le> n div 10" "n div 10 < 100" by linarith+
  then have "length (digits (n div 10)) = 2" by (rule length_digits_2)
  with assms length_digits_step [of n] show ?thesis by simp
qed

lemma length_digits_4:
  assumes "1000 \<le> n" and "n \<le> 9999"
  shows "length (digits n) = 4"
proof -
  from assms have "100 \<le> n div 10" "n div 10 < 1000" by linarith+
  then have "length (digits (n div 10)) = 3" by (rule length_digits_3)
  with assms length_digits_step [of n] show ?thesis by simp
qed

lemma length_digits_less_4: "n < 1000 \<Longrightarrow> length (digits n) < 4"
  using length_digits_1 [of n] length_digits_2 [of n] length_digits_3 [of n]
  by (cases "n < 10"; cases "n < 100") simp_all

lemma length_pad2: "0 \<le> n \<Longrightarrow> n < 100 \<Longrightarrow> length (pad2 n) = 2"
  by (simp add: pad2_def length_digits_1 length_digits_2)

lemma fromtimestamp_utc_zone:
  assumes "fromtimestamp_utc dt = Inr u"
  shows "tzinfo u = Some 0 \<and> 1 \<le> year u \<and> year u \<le> 9999"
  using assms
  by (auto simp: fromtimestamp_utc_def bind_eq_Inr Let_def split: if_splits prod.splits)

lemma current_weather_data_timestamp:
  assumes "current_weather_data data = Inr w"
  shows "\<exists>dt u. getitem_str data ''dt'' = Inr dt \<and> fromtimestamp_utc dt = Inr u
     \<and> timestamp w = Some u \<and> tzinfo u = Some 0 \<and> 1 \<le> year u \<and> year u \<le> 9999"
proof -
  from assms obtain dt u where "getitem_str data ''dt'' = Inr dt" "fromtimestamp_utc dt = Inr u"
    "timestamp w = Some u"
    by (auto simp: current_weather_data_def bind_eq_Inr)
  with fromtimestamp_utc_zone [of dt u] show ?thesis by blast
qed

lemma forecast_weather_data_timestamp:
  assumes "forecast_weather_data data item = Inr w"
  shows "\<exists>dt u. getitem_str item ''dt'' = Inr dt \<and> fromtimestamp_utc dt = Inr u
     \<and> timestamp w = Some u \<and> tzinfo u = Some 0 \<and> 1 \<le> year u \<and> year u \<le> 9999"
proof -
  from assms obtain dt u where "getitem_str item ''dt'' = Inr dt" "fromtimestamp_utc dt = Inr u"
    "timestamp w = Some u"
    by (auto simp: forecast_weather_data_def bind_eq_Inr)
  with fromtimestamp_utc_zone [of dt u] show ?thesis by blast
qed

text \<open>
  Claim C6, as the code has it. For every record, the text that \<open>display_weather\<close> prints
  contains the city header \<open>Weather for {city}:\<close>, \<open>Temperature: {T}\<close> followed by the
  degree sign and \<open>C\<close>, \<open>Condition: {desc}\<close>, \<open>Humidity: {H}%\<close> and
  \<open>Wind Speed: {W} m/s\<close>, each field formatted as an f-string formats it. When the
  timestamp is present, these lines are followed by the line \<open>Time: {Y-MM-DD HH:MM:SS} UTC\<close>;
  when it is absent, the text ends with the wind speed line. The date and time of the
  line are the fields that the timestamp holds, without conversion to another zone:
  month, day, hour, minute and second in two digits, the year in decimal without
  padding, which are the four digits \<open>YYYY\<close> from the year 1000 on and fewer for an
  earlier year. For every record that \<open>fetch_current_weather\<close> or \<open>fetch_forecast\<close>
  returns, the timestamp is the datetime in UTC of the \<open>dt\<close> field of the response, with
  a year from 1 to 9999, so that for these records the line shows the time in UTC.
\<close>

theorem display_weather_contents:
  "sublist (''Weather for '' @ py_format repr (city_name w) @ '':'') (display_weather repr w)
   \<and> sublist (''Temperature: '' @ py_format repr (temperature w) @ [CHR 0xB0, CHR ''C''])
        (display_weather repr w)
   \<and> sublist (''Condition: '' @ py_format repr (condition w)) (display_weather repr w)
   \<and> sublist (''Humidity: '' @ py_format repr (humidity w) @ ''%'') (display_weather repr w)
   \<and> sublist (''Wind Speed: '' @ py_format repr (wind_speed w) @ '' m/s'') (display_weather repr w)
   \<and> (\<forall>t. timestamp w = Some t \<longrightarrow>
         sublist (''Time: '' @ strftime t @ '' UTC'') (display_weather repr w)
       \<and> display_weather repr (w\<lparr>timestamp := None\<rparr>) @ print_line (''Time: '' @ strftime t @ '' UTC'')
           = display_weather repr w)
   \<and> strftime t = digits (year t) @ ''-'' @ pad2 (month t) @ ''-'' @ pad2 (day t) @ '' ''
                  @ pad2 (hour t) @ '':'' @ pad2 (minute t) @ '':'' @ pad2 (second t)
   \<and> (1000 \<le> year t \<and> year t \<le> 9999 \<longrightarrow> length (digits (year t)) = 4)
   \<and> (year t < 1000 \<longrightarrow> length (digits (year t)) < 4)
   \<and> (0 \<le> n \<and> n < 100 \<longrightarrow> length (pad2 n) = 2)
   \<and> (fetch_current_weather self g city = Inr (Some w) \<longrightarrow>
        (\<exists>response data dt u. g (weather_url self city) = Inr response
           \<and> json_body response = Inr data \<and> getitem_str data ''dt'' = Inr dt
           \<and> fromtimestamp_utc dt = Inr u \<and> timestamp w = Some u \<and> tzinfo u = Some 0
           \<and> 1 \<le> year u \<and> year u \<le> 9999))
   \<and> (fetch_forecast self g city = Inr ws \<and> i < length ws \<longrightarrow>
        (\<exists>response data entries items dt u. g (forecast_url self city) = Inr response
           \<and> json_body response = Inr data \<and> getitem_str data ''list'' = Inr entries
           \<and> iter_items entries = Inr items \<and> length items = length ws
           \<and> getitem_str (items ! i) ''dt'' = Inr dt
           \<and> fromtimestamp_utc dt = Inr u \<and> timestamp (ws ! i) = Some u \<and> tzinfo u = Some 0
           \<and> 1 \<le> year u \<and> year u \<le> 9999))
   \<and> (timestamp w = None \<longrightarrow>
         display_weather repr w
           = print_line (newline # ''Weather for '' @ py_format repr (city_name w) @ '':'')
             @ print_line (''Temperature: '' @ py_format repr (temperature w) @ [CHR 0xB0, CHR ''C''])
             @ print_line (''Condition: '' @ py_format repr (condition w))
             @ print_line (''Humidity: '' @ py_format repr (humidity w) @ ''%'')
             @ print_line (''Wind Speed: '' @ py_format repr (wind_speed w) @ '' m/s''))"
proof (intro conjI allI impI)
  let ?l1 = "print_line (newline # ''Weather for '' @ py_format repr (city_name w) @ '':'')"
  let ?l2 = "print_line (''Temperature: '' @ py_format repr (temperature w) @ [CHR 0xB0, CHR ''C''])"
  let ?l3 = "print_line (''Condition: '' @ py_format repr (condition w))"
  let ?l4 = "print_line (''Humidity: '' @ py_format repr (humidity w) @ ''%'')"
  let ?l5 = "print_line (''Wind Speed: '' @ py_format repr (wind_speed w) @ '' m/s'')"
  let ?l6 = "case timestamp w of Some t \<Rightarrow> print_line (''Time: '' @ strftime t @ '' UTC'') | None \<Rightarrow> []"
  have out: "display_weather repr w = ?l1 @ ?l2 @ ?l3 @ ?l4 @ ?l5 @ ?l6"
    by (simp add: display_weather_def)
  have "sublist (''Weather for '' @ py_format repr (city_name w) @ '':'')
      ([newline] @ (''Weather for '' @ py_format repr (city_name w) @ '':'') @ (newline # ?l2 @ ?l3 @ ?l4 @ ?l5 @ ?l6))"
    by (rule sublist_middle)
  then show "sublist (''Weather for '' @ py_format repr (city_name w) @ '':'') (display_weather repr w)"
    by (simp add: out print_line_def)
  have "sublist (''Temperature: '' @ py_format repr (temperature w) @ [CHR 0xB0, CHR ''C''])
      (?l1 @ ?l2 @ (?l3 @ ?l4 @ ?l5 @ ?l6))"
    by (rule sublist_in_line)
  then show "sublist (''Temperature: '' @ py_format repr (temperature w) @ [CHR 0xB0, CHR ''C''])
        (display_weather repr w)"
    by (simp add: out)
  have "sublist (''Condition: '' @ py_format repr (condition w)) ((?l1 @ ?l2) @ ?l3 @ (?l4 @ ?l5 @ ?l6))"
    by (rule sublist_in_line)
  then show "sublist (''Condition: '' @ py_format repr (condition w)) (display_weather repr w)"
    by (simp add: out)
  have "sublist (''Humidity: '' @ py_format repr (humidity w) @ ''%'') ((?l1 @ ?l2 @ ?l3) @ ?l4 @ (?l5 @ ?l6))"
    by (rule sublist_in_line)
  then show "sublist (''Humidity: '' @ py_format repr (humidity w) @ ''%'') (display_weather repr w)"
    by (simp add: out)
  have "sublist (''Wind Speed: '' @ py_format repr (wind_speed w) @ '' m/s'')
      ((?l1 @ ?l2 @ ?l3 @ ?l4) @ ?l5 @ ?l6)"
    by (rule sublist_in_line)
  then show "sublist (''Wind Speed: '' @ py_format repr (wind_speed w) @ '' m/s'') (display_weather repr w)"
    by (simp add: out)
next
  fix t
  assume t: "timestamp w = Some t"
  then show eq: "display_weather repr (w\<lparr>timestamp := None\<rparr>) @ print_line (''Time: '' @ strftime t @ '' UTC'')
      = display_weather repr w"
    by (simp add: display_weather_def)
  have "sublist (''Time: '' @ strftime t @ '' UTC'')
      (display_weather repr (w\<lparr>timestamp := None\<rparr>) @ print_line (''Time: '' @ strftime t @ '' UTC'') @ [])"
    by (rule sublist_in_line)
  with eq [symmetric] show "sublist (''Time: '' @ strftime t @ '' UTC'') (display_weather repr w)"
    by simp
next
  show "strftime t = digits (year t) @ ''-'' @ pad2 (month t) @ ''-'' @ pad2 (day t) @ '' ''
                  @ pad2 (hour t) @ '':'' @ pad2 (minute t) @ '':'' @ pad2 (second t)"
    by (simp add: strftime_def)
next
  assume "1000 \<le> year t \<and> year t \<le> 9999"
  then show "length (digits (year t)) = 4"
    by (simp add: length_digits_4)
next
  assume "year t < 1000"
  then show "length (digits (year t)) < 4"
    by (rule length_digits_less_4)
next
  assume "0 \<le> n \<and> n < 100"
  then show "length (pad2 n) = 2"
    by (simp add: length_pad2)
next
  assume "fetch_current_weather self g city = Inr (Some w)"
  then obtain response data where
    "g (weather_url self city) = Inr response" "json_body response = Inr data"
    "current_weather_data data = Inr w"
    by (auto simp: fetch_current_weather_Some)
  then show "\<exists>response data dt u. g (weather_url self city) = Inr response
           \<and> json_body response = Inr data \<and> getitem_str data ''dt'' = Inr dt
           \<and> fromtimestamp_utc dt = Inr u \<and> timestamp w = Some u \<and> tzinfo u = Some 0
           \<and> 1 \<le> year u \<and> year u \<le> 9999"
    using current_weather_data_timestamp [of data w] by blast
next
  assume a: "fetch_forecast self g city = Inr ws \<and> i < length ws"
  then have "ws \<noteq> []" by auto
  with a obtain response data entries items where
    r: "g (forecast_url self city) = Inr response" "json_body response = Inr data"
       "getitem_str data ''list'' = Inr entries" "iter_items entries = Inr items"
    and all: "list_all2 (\<lambda>item w. forecast_weather_data data item = Inr w) items ws"
    by (auto simp: fetch_forecast_Inr forecast_data_Inr)
  from all a have len: "length items = length ws"
    and "forecast_weather_data data (items ! i) = Inr (ws ! i)"
    by (auto simp: list_all2_conv_all_nth)
  then show "\<exists>response data entries items dt u. g (forecast_url self city) = Inr response
           \<and> json_body response = Inr data \<and> getitem_str data ''list'' = Inr entries
           \<and> iter_items entries = Inr items \<and> length items = length ws
           \<and> getitem_str (items ! i) ''dt'' = Inr dt
           \<and> fromtimestamp_utc dt = Inr u \<and> timestamp (ws ! i) = Some u \<and> tzinfo u = Some 0
           \<and> 1 \<le> year u \<and> year u \<le> 9999"
    using forecast_weather_data_timestamp [of data "items ! i" "ws ! i"] r by blast
next
  assume "timestamp w = None"
  then show "display_weather repr w
           = print_line (newline # ''Weather for '' @ py_format repr (city_name w) @ '':'')
             @ print_line (''Temperature: '' @ py_format repr (temperature w) @ [CHR 0xB0, CHR ''C''])
             @ print_line (''Condition: '' @ py_format repr (condition w))
             @ print_line (''Humidity: '' @ py_format repr (humidity w) @ ''%'')
             @ print_line (''Wind Speed: '' @ py_format repr (wind_speed w) @ '' m/s'')"
    by (simp add: display_weather_def)
qed

theorem display_weather_contents_witness:
  "timestamp displayed_record
     = Some \<lparr>year = 2023, month = 11, day = 1, hour = 12, minute = 0, second = 0, microsecond = 0,
              tzinfo = None\<rparr>
   \<and> sublist ''Weather for London:'' (display_weather sample_repr displayed_record)
   \<and> sublist (''Temperature: 10.0'' @ [CHR 0xB0, CHR ''C'']) (display_weather sample_repr displayed_record)
   \<and> sublist ''Condition: clear sky'' (display_weather sample_repr displayed_record)
   \<and> sublist ''Humidity: 80%'' (display_weather sample_repr displayed_record)
   \<and> sublist ''Wind Speed: 5.0 m/s'' (display_weather sample_repr displayed_record)
   \<and> sublist ''Time: 2023-11-01 12:00:00 UTC'' (display_weather sample_repr displayed_record)
   \<and> timestamp (displayed_record\<lparr>timestamp := None\<rparr>) = None
   \<and> display_weather sample_repr (displayed_record\<lparr>timestamp := None\<rparr>)
       = newline # ''Weather for London:'' @ [newline]
         @ ''Temperature: 10.0'' @ [CHR 0xB0, CHR ''C'', newline]
         @ ''Condition: clear sky'' @ [newline]
         @ ''Humidity: 80%'' @ [newline]
         @ ''Wind Speed: 5.0 m/s'' @ [newline]
   \<and> (1000::int) \<le> 2023 \<and> (2023::int) \<le> 9999 \<and> length (digits 2023) = 4
   \<and> fetch_current_weather sample_service (\<lambda>u. Inr (ok_response london_current u)) ''London''
       = Inr (Some london_record)
   \<and> (\<exists>u. timestamp london_record = Some u \<and> tzinfo u = Some 0)"
proof -
  let ?t = "\<lparr>year = 2023, month = 11, day = 1, hour = 12, minute = 0, second = 0, microsecond = 0,
              tzinfo = None\<rparr>"
  let ?w = "displayed_record\<lparr>timestamp := None\<rparr>"
  have ts: "timestamp displayed_record = Some ?t"
    by (simp add: displayed_record_def)
  have no_ts: "timestamp ?w = None"
    by simp
  have f1: "py_format sample_repr (city_name displayed_record) = ''London''"
    and f2: "py_format sample_repr (temperature displayed_record) = ''10.0''"
    and f3: "py_format sample_repr (condition displayed_record) = ''clear sky''"
    and f4: "py_format sample_repr (humidity displayed_record) = ''80''"
    and f5: "py_format sample_repr (wind_speed displayed_record) = ''5.0''"
    and f6: "strftime ?t = ''2023-11-01 12:00:00''"
    by code_simp+
  have g: "city_name ?w = city_name displayed_record" "temperature ?w = temperature displayed_record"
    "condition ?w = condition displayed_record" "humidity ?w = humidity displayed_record"
    "wind_speed ?w = wind_speed displayed_record"
    by simp_all
  from display_weather_contents [of sample_repr displayed_record] ts
  have "sublist ''Weather for London:'' (display_weather sample_repr displayed_record)
   \<and> sublist (''Temperature: 10.0'' @ [CHR 0xB0, CHR ''C'']) (display_weather sample_repr displayed_record)
   \<and> sublist ''Condition: clear sky'' (display_weather sample_repr displayed_record)
   \<and> sublist ''Humidity: 80%'' (display_weather sample_repr displayed_record)
   \<and> sublist ''Wind Speed: 5.0 m/s'' (display_weather sample_repr displayed_record)
   \<and> sublist ''Time: 2023-11-01 12:00:00 UTC'' (display_weather sample_repr displayed_record)"
    by (simp add: f1 f2 f3 f4 f5 f6)
  moreover from display_weather_contents [of sample_repr ?w] no_ts
  have "display_weather sample_repr ?w
       = newline # ''Weather for London:'' @ [newline]
         @ ''Temperature: 10.0'' @ [CHR 0xB0, CHR ''C'', newline]
         @ ''Condition: clear sky'' @ [newline]
         @ ''Humidity: 80%'' @ [newline]
         @ ''Wind Speed: 5.0 m/s'' @ [newline]"
    by (simp add: g f1 f2 f3 f4 f5 print_line_def)
  moreover from display_weather_contents [of sample_repr displayed_record ?t]
  have "length (digits 2023) = 4"
    by simp
  moreover from display_weather_contents [of sample_repr london_record _ _ sample_service
      "\<lambda>u. Inr (ok_response london_current u)" "''London''"] sample_current_weather
  have "\<exists>u. timestamp london_record = Some u \<and> tzinfo u = Some 0"
    by blast
  ultimately show ?thesis using ts no_ts sample_current_weather by simp
qed

text \<open>
  The claim as the specification words it, with \<open>YYYY\<close> for every record, does not hold.
  For the response whose \<open>dt\<close> is the first second of the year 999 the service returns
  a record, and the line printed for it is \<open>Time: 999-01-01 00:00:00 UTC\<close>; the text
  does not contain \<open>Time: 0999-01-01 00:00:00 UTC\<close>.
\<close>

lemma old_current_weather:
  "fetch_current_weather sample_service (\<lambda>u. Inr (ok_response old_current u)) ''London''
     = Inr (Some old_record)"
  by code_simp

theorem display_weather_contents_counterexample:
  "fetch_current_weather sample_service (\<lambda>u. Inr (ok_response old_current u)) ''London''
     = Inr (Some old_record)
   \<and> sublist ''Time: 999-01-01 00:00:00 UTC'' (display_weather sample_repr old_record)
   \<and> \<not> sublist ''Time: 0999-01-01 00:00:00 UTC'' (display_weather sample_repr old_record)"
proof -
  have "sublist ''Time: 999-01-01 00:00:00 UTC'' (display_weather sample_repr old_record)"
    by code_simp
  moreover have "\<not> sublist ''Time: 0999-01-01 00:00:00 UTC'' (display_weather sample_repr old_record)"
    by code_simp
  ultimately show ?thesis using old_current_weather by blast
qed

lemma display_forecast_loop_concat:
  "display_forecast_loop repr forecast
     = concat (map (\<lambda>weather. print_line (replicate 40 CHR ''-'') @ display_weather repr weather) forecast)"
  by (induction forecast) simp_all

text \<open>
  Claim C7. For every non-empty list of records, \<open>display_forecast\<close> prints the header
  \<open>5-Day Forecast for {city}:\<close> with the city of the first record, and then, for each
  record in order, a rule of 40 dashes followed by the block that \<open>display_weather\<close>
  prints for the record; so a rule separates every block from the one before it.
\<close>

theorem display_forecast_layout:
  assumes "forecast \<noteq> []"
  shows "display_forecast repr forecast
    = Inr (print_line (newline # ''5-Day Forecast for '' @ py_format repr (city_name (hd forecast)) @ '':'')
           @ concat (map (\<lambda>weather. print_line (replicate 40 CHR ''-'') @ display_weather repr weather)
                forecast))"
  using assms
  by (cases forecast) (simp_all add: display_forecast_def display_forecast_loop_concat)

theorem display_forecast_layout_witness:
  "[displayed_record] \<noteq> []
   \<and> display_forecast sample_repr [displayed_record]
     = Inr (newline # ''5-Day Forecast for London:'' @ [newline]
            @ ''----------------------------------------'' @ [newline]
            @ display_weather sample_repr displayed_record)"
proof -
  have f1: "py_format sample_repr (city_name displayed_record) = ''London''"
    by code_simp
  have ne: "[displayed_record] \<noteq> []"
    by simp
  from display_forecast_layout [of "[displayed_record]" sample_repr, OF ne] ne
  show ?thesis
    by (simp add: f1 print_line_def eval_nat_numeral)
qed


section \<open>Properties of the interactive loop\<close>

lemma print_out_requests [simp]: "requests (print_out s w) = requests w"
  by (simp add: print_out_def)

lemma display_forecast_nonempty:
  "forecast \<noteq> [] \<Longrightarrow> \<exists>out. display_forecast repr forecast = Inr out"
  by (cases forecast) (simp_all add: display_forecast_def)

lemma process_city_requests:
  "requests (snd (process_city self env repr city w))
     = requests w @ weather_url (api_service self) city
         # (if isl (fetch_current_weather (api_service self) (env (length (requests w))) city)
            then [] else [forecast_url (api_service self) city])"
proof (cases "fetch_current_weather (api_service self) (env (length (requests w))) city")
  case (Inl e)
  then show ?thesis by (simp add: process_city_def Let_def)
next
  case cur: (Inr current_weather)
  show ?thesis
  proof (cases "fetch_forecast (api_service self) (env (Suc (length (requests w)))) city")
    case (Inl e)
    with cur show ?thesis
      by (cases current_weather) (simp_all add: process_city_def Let_def)
  next
    case (Inr forecast)
    show ?thesis
    proof (cases "forecast = []")
      case True
      with cur Inr show ?thesis
        by (cases current_weather) (simp_all add: process_city_def Let_def)
    next
      case False
      then obtain out where "display_forecast repr forecast = Inr out"
        using display_forecast_nonempty by blast
      with cur Inr False show ?thesis
        by (cases current_weather) (simp_all add: process_city_def Let_def)
    qed
  qed
qed

lemma process_city_result:
  "fst (process_city self env repr city w)
     = (case fetch_current_weather (api_service self) (env (length (requests w))) city of
          Inl e \<Rightarrow> Some e
        | Inr _ \<Rightarrow>
            (case fetch_forecast (api_service self) (env (Suc (length (requests w)))) city of
               Inl e \<Rightarrow> Some e
             | Inr _ \<Rightarrow> None))"
proof (cases "fetch_current_weather (api_service self) (env (length (requests w))) city")
  case (Inl e)
  then show ?thesis by (simp add: process_city_def Let_def)
next
  case cur: (Inr current_weather)
  show ?thesis
  proof (cases "fetch_forecast (api_service self) (env (Suc (length (requests w)))) city")
    case (Inl e)
    with cur show ?thesis
      by (cases current_weather) (simp_all add: process_city_def Let_def)
  next
    case (Inr forecast)
    show ?thesis
    proof (cases "forecast = []")
      case True
      with cur Inr show ?thesis
        by (cases current_weather) (simp_all add: process_city_def Let_def)
    next
      case False
      then obtain out where "display_forecast repr forecast = Inr out"
        using display_forecast_nonempty by blast
      with cur Inr False show ?thesis
        by (cases current_weather) (simp_all add: process_city_def Let_def)
    qed
  qed
qed

lemma process_cities_empty [simp]:
  "process_cities self env repr ([] # cities) w = process_cities self env repr cities w"
  by simp

lemma process_cities_None:
  "city \<noteq> [] \<Longrightarrow> fst (process_city self env repr city w) = None \<Longrightarrow>
     process_cities self env repr (city # cities) w
       = process_cities self env repr cities (snd (process_city self env repr city w))"
  by (cases "process_city self env repr city w") simp

lemma process_cities_Some:
  "city \<noteq> [] \<Longrightarrow> fst (process_city self env repr city w) = Some e \<Longrightarrow>
     process_cities self env repr (city # cities) w
       = (Some e, snd (process_city self env repr city w))"
  by (cases "process_city self env repr city w") simp

declare process_cities.simps(2) [simp del]

lemma process_cities_completed:
  "fst (process_cities self env repr cities w) = None \<Longrightarrow>
     requests (snd (process_cities self env repr cities w))
       = requests w @ concat (map (\<lambda>c. [weather_url (api_service self) c,
                                          forecast_url (api_service self) c])
           (filter (\<lambda>c. c \<noteq> []) cities))"
proof (induction cities arbitrary: w)
  case Nil
  show ?case by simp
next
  case (Cons city cities)
  show ?case
  proof (cases "city = []")
    case True
    with Cons show ?thesis by simp
  next
    case False
    let ?w' = "snd (process_city self env repr city w)"
    show ?thesis
    proof (cases "fst (process_city self env repr city w)")
      case (Some e)
      with Cons.prems False show ?thesis by (simp add: process_cities_Some)
    next
      case None
      with Cons.prems False have rest: "fst (process_cities self env repr cities ?w') = None"
        by (simp add: process_cities_None)
      from None have "\<not> isl (fetch_current_weather (api_service self) (env (length (requests w))) city)"
        by (auto simp: process_city_result split: sum.splits)
      then have q: "requests ?w' = requests w @ [weather_url (api_service self) city,
          forecast_url (api_service self) city]"
        by (simp add: process_city_requests)
      from Cons.IH [OF rest] None q False show ?thesis
        by (simp add: process_cities_None)
    qed
  qed
qed

lemma process_cities_raised:
  "fst (process_cities self env repr cities w) = Some e \<Longrightarrow>
     \<exists>n c. fetch_current_weather (api_service self) (env n) c = Inl e
         \<or> fetch_forecast (api_service self) (env n) c = Inl e"
proof (induction cities arbitrary: w)
  case Nil
  then show ?case by simp
next
  case (Cons city cities)
  show ?case
  proof (cases "city = []")
    case True
    with Cons show ?thesis by simp
  next
    case False
    show ?thesis
    proof (cases "fst (process_city self env repr city w)")
      case None
      with Cons.prems False
      have "fst (process_cities self env repr cities (snd (process_city self env repr city w))) = Some e"
        by (simp add: process_cities_None)
      then show ?thesis by (rule Cons.IH)
    next
      case (Some e')
      with Cons.prems False have "e' = e" by (simp add: process_cities_Some)
      with Some show ?thesis
        by (auto simp: process_city_result split: sum.splits)
    qed
  qed
qed

lemma loop_iteration_line:
  "fst (loop_iteration self env repr (Line l) w)
     \<longleftrightarrow> lower (strip l) = ''quit''
       \<or> fst (process_cities self env repr (map strip (split_on CHR '','' (strip l)))
               (w\<lparr>stdout := stdout w @ ''Cities: ''\<rparr>)) = Some KeyboardInterrupt"
proof (cases "lower (strip l) = ''quit''")
  case True
  then show ?thesis by (simp add: loop_iteration_def)
next
  case False
  obtain r w1 where p: "process_cities self env repr (map strip (split_on CHR '','' (strip l)))
      (w\<lparr>stdout := stdout w @ ''Cities: ''\<rparr>) = (r, w1)"
    by (cases "process_cities self env repr (map strip (split_on CHR '','' (strip l)))
      (w\<lparr>stdout := stdout w @ ''Cities: ''\<rparr>)")
  with False show ?thesis
    by (simp add: loop_iteration_def Let_def split: option.splits exn.splits)
qed

lemma loop_iteration_requests:
  "lower (strip l) \<noteq> ''quit'' \<Longrightarrow>
     requests (snd (loop_iteration self env repr (Line l) w))
       = requests (snd (process_cities self env repr (map strip (split_on CHR '','' (strip l)))
               (w\<lparr>stdout := stdout w @ ''Cities: ''\<rparr>)))"
proof -
  assume nq: "lower (strip l) \<noteq> ''quit''"
  obtain r w1 where p: "process_cities self env repr (map strip (split_on CHR '','' (strip l)))
      (w\<lparr>stdout := stdout w @ ''Cities: ''\<rparr>) = (r, w1)"
    by (cases "process_cities self env repr (map strip (split_on CHR '','' (strip l)))
      (w\<lparr>stdout := stdout w @ ''Cities: ''\<rparr>)")
  with nq show ?thesis
    by (simp add: loop_iteration_def Let_def split: option.splits exn.splits)
qed

lemma loop_iteration_other:
  "loop_iteration self env repr Interrupt w
     = (True, print_out (newline # ''Exiting...'') (w\<lparr>stdout := stdout w @ ''Cities: ''\<rparr>))"
  "loop_iteration self env repr EndOfInput w
     = (False, print_out ''Unexpected error: EOF when reading a line''
          (w\<lparr>stdout := stdout w @ ''Cities: ''\<rparr>))"
  by (simp_all add: loop_iteration_def)

lemma batch_split:
  "map strip (split_on CHR '','' (strip ''London, , Paris'')) = [''London'', [], ''Paris'']"
  by code_simp

lemma batch_not_quit: "lower (strip ''London, , Paris'') \<noteq> ''quit''"
  by code_simp

lemma batch_requests:
  assumes "\<not> isl (fetch_current_weather (api_service self) (env (length (requests w))) ''London'')"
    and "\<not> isl (fetch_forecast (api_service self) (env (Suc (length (requests w)))) ''London'')"
  shows "requests (snd (loop_iteration self env repr (Line ''London, , Paris'') w))
     = requests w @ [weather_url (api_service self) ''London'',
                     forecast_url (api_service self) ''London'',
                     weather_url (api_service self) ''Paris'']
         @ (if isl (fetch_current_weather (api_service self) (env (length (requests w) + 2)) ''Paris'')
            then [] else [forecast_url (api_service self) ''Paris''])"
proof -
  let ?w0 = "w\<lparr>stdout := stdout w @ ''Cities: ''\<rparr>"
  let ?w1 = "snd (process_city self env repr ''London'' ?w0)"
  from assms have r: "fst (process_city self env repr ''London'' ?w0) = None"
    by (auto simp: process_city_result split: sum.splits)
  from assms have q: "requests ?w1 = requests w @ [weather_url (api_service self) ''London'',
      forecast_url (api_service self) ''London'']"
    by (simp add: process_city_requests)
  have "process_cities self env repr [''London'', [], ''Paris''] ?w0
      = process_cities self env repr [''Paris''] ?w1"
    using r by (simp add: process_cities_None)
  moreover have "requests (snd (process_cities self env repr [''Paris''] ?w1))
      = requests (snd (process_city self env repr ''Paris'' ?w1))"
    by (cases "fst (process_city self env repr ''Paris'' ?w1)")
      (simp_all add: process_cities_None process_cities_Some)
  ultimately have "requests (snd (process_cities self env repr [''London'', [], ''Paris''] ?w0))
      = requests (snd (process_city self env repr ''Paris'' ?w1))" by simp
  moreover from q have "length (requests ?w1) = length (requests w) + 2"
    by simp
  with process_city_requests [of self env repr "''Paris''" ?w1] q
  have "requests (snd (process_city self env repr ''Paris'' ?w1))
      = requests w @ [weather_url (api_service self) ''London'',
                      forecast_url (api_service self) ''London'',
                      weather_url (api_service self) ''Paris'']
          @ (if isl (fetch_current_weather (api_service self) (env (length (requests w) + 2)) ''Paris'')
             then [] else [forecast_url (api_service self) ''Paris''])"
    by simp
  ultimately show ?thesis
    by (simp only: loop_iteration_requests [OF batch_not_quit] batch_split)
qed


lemma input_loop_True:
  "fst (loop_iteration self env repr ev w) \<Longrightarrow> fst (input_loop self env repr (ev # evs) w)"
  by (cases "loop_iteration self env repr ev w") auto

lemma input_loop_False:
  "\<not> fst (loop_iteration self env repr ev w) \<Longrightarrow>
     input_loop self env repr (ev # evs) w
       = input_loop self env repr evs (snd (loop_iteration self env repr ev w))"
  by (cases "loop_iteration self env repr ev w") auto

lemma input_loop_exits:
  assumes "\<exists>ev \<in> set evs. ev = Interrupt \<or> (\<exists>l. ev = Line l \<and> lower (strip l) = ''quit'')"
  shows "fst (input_loop self env repr evs w)"
  using assms
proof (induction evs arbitrary: w)
  case Nil
  then show ?case by simp
next
  case (Cons ev evs)
  show ?case
  proof (cases "fst (loop_iteration self env repr ev w)")
    case True
    then show ?thesis by (rule input_loop_True)
  next
    case False
    then have "ev \<noteq> Interrupt" "\<And>l. ev = Line l \<Longrightarrow> lower (strip l) \<noteq> ''quit''"
      by (auto simp: loop_iteration_other loop_iteration_line)
    with Cons.prems
    have "\<exists>ev \<in> set evs. ev = Interrupt \<or> (\<exists>l. ev = Line l \<and> lower (strip l) = ''quit'')"
      by auto
    from Cons.IH [OF this, of "snd (loop_iteration self env repr ev w)"]
    show ?thesis
      by (simp only: input_loop_False [OF False])
  qed
qed

lemma loop_iteration_line_quit:
  assumes "\<forall>n c. fetch_current_weather (api_service self) (env n) c \<noteq> Inl KeyboardInterrupt
      \<and> fetch_forecast (api_service self) (env n) c \<noteq> Inl KeyboardInterrupt"
  shows "fst (loop_iteration self env repr (Line l) w) \<longleftrightarrow> lower (strip l) = ''quit''"
  using assms process_cities_raised [of self env repr _ _ KeyboardInterrupt]
  by (auto simp: loop_iteration_line)

lemma input_loop_returns:
  assumes "\<forall>n c. fetch_current_weather (api_service self) (env n) c \<noteq> Inl KeyboardInterrupt
      \<and> fetch_forecast (api_service self) (env n) c \<noteq> Inl KeyboardInterrupt"
  shows "fst (input_loop self env repr evs w)
    \<longleftrightarrow> (\<exists>ev \<in> set evs. ev = Interrupt \<or> (\<exists>l. ev = Line l \<and> lower (strip l) = ''quit''))"
proof
  assume "fst (input_loop self env repr evs w)"
  then show "\<exists>ev \<in> set evs. ev = Interrupt \<or> (\<exists>l. ev = Line l \<and> lower (strip l) = ''quit'')"
  proof (induction evs arbitrary: w)
    case Nil
    then show ?case by simp
  next
    case (Cons ev evs)
    show ?case
    proof (cases "fst (loop_iteration self env repr ev w)")
      case True
      then have "ev = Interrupt \<or> (\<exists>l. ev = Line l \<and> lower (strip l) = ''quit'')"
        using loop_iteration_line_quit [OF assms]
        by (cases ev) (simp_all add: loop_iteration_other)
      then show ?thesis by auto
    next
      case False
      with Cons.prems
      have "fst (input_loop self env repr evs (snd (loop_iteration self env repr ev w)))"
        by (simp only: input_loop_False [OF False])
      from Cons.IH [OF this] show ?thesis by auto
    qed
  qed
next
  assume "\<exists>ev \<in> set evs. ev = Interrupt \<or> (\<exists>l. ev = Line l \<and> lower (strip l) = ''quit'')"
  then show "fst (input_loop self env repr evs w)"
    by (rule input_loop_exits)
qed

lemma not_found_returns:
  assumes "g (weather_url self city) = Inr r1" and "status_code r1 = 404"
    and "h (forecast_url self city) = Inr r2" and "status_code r2 = 404"
  shows "fetch_current_weather self g city = Inr None \<and> fetch_forecast self h city = Inr []"
  using assms
  by (simp add: fetch_current_weather_def fetch_forecast_def raise_for_status_def)

text \<open>
  Claim C8, as the code has it. On the input line \<open>London, , Paris\<close> the empty entry is
  skipped, and when London returns NotFound (both of its requests meet a 404 response),
  or more generally when London's two fetches return, Paris is processed: the requests
  of the iteration are London's current weather, London's forecast and Paris's current
  weather, followed by Paris's forecast unless the fetch of Paris's current weather
  raises. For every line other than \<open>quit\<close>, if no exception leaves the pass over its
  cities, every non-empty city has been requested, in order. An iteration leaves the
  loop on an input line exactly when the line, stripped of surrounding whitespace and
  lowercased, is \<open>quit\<close>, or a keyboard interrupt arrives while its cities are fetched; a
  keyboard interrupt at the prompt leaves the loop as well. The method returns whenever a
  \<open>quit\<close> line or an interrupt is among the inputs, and, when no fetch is interrupted, only
  then.
\<close>

theorem interactive_loop_batch:
  "(env (length (requests w)) (weather_url (api_service self) ''London'') = Inr r1
      \<and> status_code r1 = 404
      \<and> env (Suc (length (requests w))) (forecast_url (api_service self) ''London'') = Inr r2
      \<and> status_code r2 = 404 \<longrightarrow>
      requests (snd (loop_iteration self env repr (Line ''London, , Paris'') w))
        = requests w @ [weather_url (api_service self) ''London'',
                        forecast_url (api_service self) ''London'',
                        weather_url (api_service self) ''Paris'']
            @ (if isl (fetch_current_weather (api_service self) (env (length (requests w) + 2)) ''Paris'')
               then [] else [forecast_url (api_service self) ''Paris'']))
   \<and> (\<not> isl (fetch_current_weather (api_service self) (env (length (requests w))) ''London'')
      \<and> \<not> isl (fetch_forecast (api_service self) (env (Suc (length (requests w)))) ''London'') \<longrightarrow>
      requests (snd (loop_iteration self env repr (Line ''London, , Paris'') w))
        = requests w @ [weather_url (api_service self) ''London'',
                        forecast_url (api_service self) ''London'',
                        weather_url (api_service self) ''Paris'']
            @ (if isl (fetch_current_weather (api_service self) (env (length (requests w) + 2)) ''Paris'')
               then [] else [forecast_url (api_service self) ''Paris'']))
   \<and> (lower (strip l) \<noteq> ''quit''
      \<and> fst (process_cities self env repr (map strip (split_on CHR '','' (strip l)))
               (w\<lparr>stdout := stdout w @ ''Cities: ''\<rparr>)) = None \<longrightarrow>
      requests (snd (loop_iteration self env repr (Line l) w))
        = requests w @ concat (map (\<lambda>c. [weather_url (api_service self) c,
                                           forecast_url (api_service self) c])
            (filter (\<lambda>c. c \<noteq> []) (map strip (split_on CHR '','' (strip l))))))
   \<and> (fst (loop_iteration self env repr (Line l) w)
        \<longleftrightarrow> lower (strip l) = ''quit''
          \<or> fst (process_cities self env repr (map strip (split_on CHR '','' (strip l)))
                  (w\<lparr>stdout := stdout w @ ''Cities: ''\<rparr>)) = Some KeyboardInterrupt)
   \<and> fst (loop_iteration self env repr Interrupt w)
   \<and> ((\<exists>ev \<in> set evs. ev = Interrupt \<or> (\<exists>l. ev = Line l \<and> lower (strip l) = ''quit''))
        \<longrightarrow> fst (get_weather_for_cities self env repr evs w))
   \<and> ((\<forall>n c. fetch_current_weather (api_service self) (env n) c \<noteq> Inl KeyboardInterrupt
             \<and> fetch_forecast (api_service self) (env n) c \<noteq> Inl KeyboardInterrupt) \<longrightarrow>
        (fst (loop_iteration self env repr (Line l) w) \<longleftrightarrow> lower (strip l) = ''quit'')
        \<and> (fst (get_weather_for_cities self env repr evs w)
             \<longleftrightarrow> (\<exists>ev \<in> set evs. ev = Interrupt
                    \<or> (\<exists>l. ev = Line l \<and> lower (strip l) = ''quit''))))"
proof (intro conjI impI)
  assume "env (length (requests w)) (weather_url (api_service self) ''London'') = Inr r1
      \<and> status_code r1 = 404
      \<and> env (Suc (length (requests w))) (forecast_url (api_service self) ''London'') = Inr r2
      \<and> status_code r2 = 404"
  then have "fetch_current_weather (api_service self) (env (length (requests w))) ''London'' = Inr None
      \<and> fetch_forecast (api_service self) (env (Suc (length (requests w)))) ''London'' = Inr []"
    by (intro not_found_returns [of _ _ _ r1 _ r2]) simp_all
  then have "\<not> isl (fetch_current_weather (api_service self) (env (length (requests w))) ''London'')"
    "\<not> isl (fetch_forecast (api_service self) (env (Suc (length (requests w)))) ''London'')"
    by simp_all
  then show "requests (snd (loop_iteration self env repr (Line ''London, , Paris'') w))
        = requests w @ [weather_url (api_service self) ''London'',
                        forecast_url (api_service self) ''London'',
                        weather_url (api_service self) ''Paris'']
            @ (if isl (fetch_current_weather (api_service self) (env (length (requests w) + 2)) ''Paris'')
               then [] else [forecast_url (api_service self) ''Paris''])"
    by (rule batch_requests)
next
  assume "\<not> isl (fetch_current_weather (api_service self) (env (length (requests w))) ''London'')
      \<and> \<not> isl (fetch_forecast (api_service self) (env (Suc (length (requests w)))) ''London'')"
  then show "requests (snd (loop_iteration self env repr (Line ''London, , Paris'') w))
        = requests w @ [weather_url (api_service self) ''London'',
                        forecast_url (api_service self) ''London'',
                        weather_url (api_service self) ''Paris'']
            @ (if isl (fetch_current_weather (api_service self) (env (length (requests w) + 2)) ''Paris'')
               then [] else [forecast_url (api_service self) ''Paris''])"
    using batch_requests [of self env w repr] by blast
next
  assume a: "lower (strip l) \<noteq> ''quit''
      \<and> fst (process_cities self env repr (map strip (split_on CHR '','' (strip l)))
               (w\<lparr>stdout := stdout w @ ''Cities: ''\<rparr>)) = None"
  then show "requests (snd (loop_iteration self env repr (Line l) w))
        = requests w @ concat (map (\<lambda>c. [weather_url (api_service self) c,
                                           forecast_url (api_service self) c])
            (filter (\<lambda>c. c \<noteq> []) (map strip (split_on CHR '','' (strip l)))))"
    using process_cities_completed [of self env repr "map strip (split_on CHR '','' (strip l))"
        "w\<lparr>stdout := stdout w @ ''Cities: ''\<rparr>"]
    by (simp add: loop_iteration_requests)
next
  show "fst (loop_iteration self env repr (Line l) w)
        \<longleftrightarrow> lower (strip l) = ''quit''
          \<or> fst (process_cities self env repr (map strip (split_on CHR '','' (strip l)))
                  (w\<lparr>stdout := stdout w @ ''Cities: ''\<rparr>)) = Some KeyboardInterrupt"
    by (rule loop_iteration_line)
next
  show "fst (loop_iteration self env repr Interrupt w)"
    by (simp add: loop_iteration_other)
next
  assume "\<exists>ev \<in> set evs. ev = Interrupt \<or> (\<exists>l. ev = Line l \<and> lower (strip l) = ''quit'')"
  then show "fst (get_weather_for_cities self env repr evs w)"
    unfolding get_weather_for_cities_def by (rule input_loop_exits)
next
  assume H: "\<forall>n c. fetch_current_weather (api_service self) (env n) c \<noteq> Inl KeyboardInterrupt
             \<and> fetch_forecast (api_service self) (env n) c \<noteq> Inl KeyboardInterrupt"
  show "fst (loop_iteration self env repr (Line l) w) \<longleftrightarrow> lower (strip l) = ''quit''"
    by (rule loop_iteration_line_quit [OF H])
  show "fst (get_weather_for_cities self env repr evs w)
             \<longleftrightarrow> (\<exists>ev \<in> set evs. ev = Interrupt
                    \<or> (\<exists>l. ev = Line l \<and> lower (strip l) = ''quit''))"
    unfolding get_weather_for_cities_def by (rule input_loop_returns [OF H])
qed

lemma paris_current: "current_weather_data paris_body = Inr paris_record"
  by code_simp

lemma paris_forecast: "forecast_data paris_body = Inr [paris_record]"
  by code_simp

lemma sample_client_service: "api_service sample_client = sample_service"
  by (simp add: sample_client_def init_client_def sample_service_def)

lemma batch_env_no_error:
  "\<not> isl (fetch_current_weather sample_service (batch_env n) c)
   \<and> \<not> isl (fetch_forecast sample_service (batch_env n) c)"
proof (cases "n < 2")
  case True
  then show ?thesis
    by (simp add: batch_env_def fetch_current_weather_def fetch_forecast_def raise_for_status_def
        not_found_response_def)
next
  case False
  let ?r1 = "ok_response paris_body (weather_url sample_service c)"
  let ?r2 = "ok_response paris_body (forecast_url sample_service c)"
  have "fetch_current_weather sample_service (batch_env n) c = Inr (Some paris_record)"
    unfolding fetch_current_weather_Some
    using False paris_current
    by (intro exI [of _ ?r1] exI [of _ paris_body])
      (simp add: batch_env_def ok_response_def raise_for_status_def)
  moreover have "fetch_forecast sample_service (batch_env n) c = Inr [paris_record]"
    unfolding fetch_forecast_Inr
    using False paris_forecast
    by (intro exI [of _ ?r2])
      (simp add: batch_env_def ok_response_def raise_for_status_def)
  ultimately show ?thesis by simp
qed

theorem interactive_loop_batch_witness:
  "batch_env (length (requests initial_world)) (weather_url (api_service sample_client) ''London'')
     = Inr (not_found_response (weather_url (api_service sample_client) ''London''))
   \<and> status_code (not_found_response (weather_url (api_service sample_client) ''London'')) = 404
   \<and> batch_env (Suc (length (requests initial_world)))
       (forecast_url (api_service sample_client) ''London'')
     = Inr (not_found_response (forecast_url (api_service sample_client) ''London''))
   \<and> status_code (not_found_response (forecast_url (api_service sample_client) ''London'')) = 404
   \<and> requests (snd (loop_iteration sample_client batch_env sample_repr
          (Line ''London, , Paris'') initial_world))
       = [''http://api.openweathermap.org/data/2.5/weather?q=London&appid=KEY'',
          ''http://api.openweathermap.org/data/2.5/forecast?q=London&appid=KEY'',
          ''http://api.openweathermap.org/data/2.5/weather?q=Paris&appid=KEY'',
          ''http://api.openweathermap.org/data/2.5/forecast?q=Paris&appid=KEY'']
   \<and> (\<forall>n c. fetch_current_weather (api_service sample_client) (batch_env n) c \<noteq> Inl KeyboardInterrupt
          \<and> fetch_forecast (api_service sample_client) (batch_env n) c \<noteq> Inl KeyboardInterrupt)
   \<and> \<not> fst (loop_iteration sample_client batch_env sample_repr (Line ''London, , Paris'')
          initial_world)
   \<and> fst (get_weather_for_cities sample_client batch_env sample_repr
          [Line ''London, , Paris'', EndOfInput, Line '' QUIT ''] initial_world)"
proof -
  let ?lw = "weather_url (api_service sample_client) ''London''"
  let ?lf = "forecast_url (api_service sample_client) ''London''"
  have n0: "length (requests initial_world) = 0"
    by (simp add: initial_world_def)
  have h1: "batch_env (length (requests initial_world)) ?lw = Inr (not_found_response ?lw)"
    and h2: "status_code (not_found_response ?lw) = 404"
    and h3: "batch_env (Suc (length (requests initial_world))) ?lf = Inr (not_found_response ?lf)"
    and h4: "status_code (not_found_response ?lf) = 404"
    by (simp_all add: n0 batch_env_def not_found_response_def)
  have H: "\<forall>n c. fetch_current_weather (api_service sample_client) (batch_env n) c \<noteq> Inl KeyboardInterrupt
          \<and> fetch_forecast (api_service sample_client) (batch_env n) c \<noteq> Inl KeyboardInterrupt"
  proof (intro allI)
    fix n c
    from batch_env_no_error [of n c] show
      "fetch_current_weather (api_service sample_client) (batch_env n) c \<noteq> Inl KeyboardInterrupt
       \<and> fetch_forecast (api_service sample_client) (batch_env n) c \<noteq> Inl KeyboardInterrupt"
      unfolding sample_client_service
      by (cases "fetch_current_weather sample_service (batch_env n) c";
          cases "fetch_forecast sample_service (batch_env n) c") simp_all
  qed
  have q: "lower (strip '' QUIT '') = ''quit''"
    by code_simp
  have p: "\<not> isl (fetch_current_weather (api_service sample_client)
      (batch_env (length (requests initial_world) + 2)) ''Paris'')"
    using batch_env_no_error by (simp add: sample_client_service)
  note th = interactive_loop_batch [of batch_env initial_world sample_client
      "not_found_response ?lw" "not_found_response ?lf" sample_repr "''London, , Paris''"
      "[Line ''London, , Paris'', EndOfInput, Line '' QUIT '']"]
  from th h1 h2 h3 h4 p
  have 1: "requests (snd (loop_iteration sample_client batch_env sample_repr
          (Line ''London, , Paris'') initial_world))
       = [''http://api.openweathermap.org/data/2.5/weather?q=London&appid=KEY'',
          ''http://api.openweathermap.org/data/2.5/forecast?q=London&appid=KEY'',
          ''http://api.openweathermap.org/data/2.5/weather?q=Paris&appid=KEY'',
          ''http://api.openweathermap.org/data/2.5/forecast?q=Paris&appid=KEY'']"
    by (simp add: initial_world_def sample_client_def init_client_def init_service_def
        weather_url_def forecast_url_def)
  from th H batch_not_quit
  have 2: "\<not> fst (loop_iteration sample_client batch_env sample_repr (Line ''London, , Paris'')
          initial_world)"
    by blast
  from th q have 3: "fst (get_weather_for_cities sample_client batch_env sample_repr
          [Line ''London, , Paris'', EndOfInput, Line '' QUIT ''] initial_world)"
    by simp
  from h1 h2 h3 h4 1 H 2 3 show ?thesis
    by blast
qed

text \<open>
  The last sentence of the claim as the specification words it, that the loop terminates
  exactly on the literal input \<open>quit\<close> compared without regard to case, does not hold: the
  loop ends on a keyboard interrupt, which is no input \<open>quit\<close>, and it ends on the line
  \<open> Quit \<close>, whose lowercase form is not \<open>quit\<close> until it is stripped.
\<close>

theorem interactive_loop_batch_counterexample:
  "fst (loop_iteration sample_client batch_env sample_repr Interrupt initial_world)
   \<and> fst (loop_iteration sample_client batch_env sample_repr (Line '' Quit '') initial_world)
   \<and> lower '' Quit '' \<noteq> ''quit''"
proof -
  have "fst (loop_iteration sample_client batch_env sample_repr Interrupt initial_world)"
    by (simp add: loop_iteration_other)
  moreover have "lower (strip '' Quit '') = ''quit''"
    by code_simp
  then have "fst (loop_iteration sample_client batch_env sample_repr (Line '' Quit '') initial_world)"
    by (simp add: loop_iteration_line)
  moreover have "lower '' Quit '' \<noteq> ''quit''"
    by code_simp
  ultimately show ?thesis by blast
qed

end
